theory Spec2Isabelle
  imports Complex_Main
begin

section \<open>The notebook PVDiagramPlotting.ipynb as a state-passing program\<close>

text \<open>
  The notebook is a straight-line sequence of calls into spectral_cube, pvextractor,
  astropy and matplotlib. Each library call is modelled by its documented effect on an
  explicit state: the values it returns are symbolic terms that record the arguments they
  were computed from, plots are records of what was drawn on them, local files are a map
  from file names to contents. Importing \<open>matplotlib.pyplot\<close> has an effect on the files
  too: it builds matplotlib's font cache when there is none. What a run depends on from
  outside is the \<open>world\<close>: the resource behind the cube's URL, the local files present
  before the run, and where matplotlib keeps its font cache.
\<close>

subsection \<open>Values\<close>

text \<open>\<open>u.h\<close>, \<open>u.deg\<close>, \<open>u.arcmin\<close>, \<open>u.km\<close>, \<open>u.s\<close>, and quotients such as
  \<open>u.km / u.s\<close>.\<close>

datatype unit_t = U_h | U_deg | U_arcmin | U_km | U_s | UDiv unit_t unit_t

text \<open>\<open>[3.4, 3.43, 3.42] * u.h\<close> is an array quantity, \<open>2 * u.arcmin\<close> a scalar one.
  Numbers are the decimal literals as written.\<close>

datatype quantity = QArray "rat list" unit_t | QScalar rat unit_t

text \<open>\<open>SkyCoord(lon, lat, frame=...)\<close>.\<close>

datatype skycoord = SkyCoord quantity quantity string

text \<open>The two kinds of argument \<open>pvextractor.Path\<close> is given: a list of \<open>(x, y)\<close> pixel
  pairs, or a \<open>SkyCoord\<close>; and the optional \<open>width\<close>.\<close>

datatype path_points = PixelCoords "(int \<times> int) list" | SkyCoords skycoord

datatype path = Path path_points "quantity option"

text \<open>A cube read from a URL. Of the data behind the URL the notebook's own code depends
  only on the number of spectral channels (it indexes channel 25), so that is what a
  cube carries here.\<close>

datatype cube = Cube string nat

fun nchan :: "cube \<Rightarrow> nat" where
  "nchan (Cube url n) = n"

text \<open>The \<open>PrimaryHDU\<close> returned by \<open>extract_pv_slice(cube=, path=, spacing=)\<close>;
  the spacing is \<open>None\<close> where the call leaves it to its default.\<close>

datatype hdu = PVSlice cube path "nat option"

text \<open>2-D arrays handed to \<open>imshow\<close>: \<open>cube[k].value\<close>, \<open>cube.max(axis=0).value\<close>
  and \<open>pvdiagram.data\<close>.\<close>

datatype image = Channel cube nat | PeakMap cube | HduData hdu

text \<open>\<open>cube.wcs.celestial\<close> and \<open>wcs.WCS(pvdiagram.header)\<close>.\<close>

datatype wcs_t = Celestial cube | WCSOfHeader hdu

text \<open>A label: a string literal, or the f-string \<open>f"pre{cube.wcs.wcs.radesys}post"\<close>.\<close>

datatype label = Str string | FRadesys string cube string

text \<open>Handles of matplotlib objects: the image returned by \<open>imshow\<close> (panel, position
  among the panel's images) and \<open>ax.coords[k]\<close>. Figures, panels (the axes made by
  \<open>plt.subplot\<close> or implicitly by \<open>plt.imshow\<close>) and colorbars are numbered in the order
  they are made; a handle to one is its number.\<close>

datatype mappable = AxesImage nat nat

datatype coord_helper = CoordHelper nat nat

text \<open>Styling keywords, kept as written.\<close>

type_synonym kwargs = "(string \<times> string) list"

text \<open>What a local file holds: an HDU written by \<open>writeto\<close>, a figure saved in some
  format, the font list matplotlib caches, or anything else.\<close>

datatype file_t = FitsFile hdu | FigureFile string nat | FontList | OtherFile string

datatype error =
    NameError string
  | IOError string
  | IndexError
  | AttributeError string
  | OSError string

subsection \<open>Figures, panels and the trace of library calls\<close>

text \<open>A figure remembers the cell that made it. A panel records its figure, its subplot
  position, the projection it was made with, and what has been drawn and set on it.\<close>

record figure =
  fig_cell :: nat
  fig_size :: "(nat \<times> nat) option"

record axes =
  ax_fig :: nat
  ax_pos :: nat
  ax_projection :: "wcs_t option"
  ax_images :: "image list"
  ax_overlays :: "(path \<times> nat) list"
  ax_xlabel :: "label option"
  ax_ylabel :: "label option"

datatype event =
    EvRead string
  | EvPath path
  | EvExtract cube path "nat option"
  | EvFigure nat
  | EvSubplot nat nat nat "wcs_t option"
  | EvImshow nat image kwargs
  | EvShowOnAxis path nat nat kwargs
  | EvSetXLabel nat label
  | EvSetYLabel nat label
  | EvColorbar mappable
  | EvCbLabel nat label
  | EvFormatUnit coord_helper unit_t
  | EvSetAspect nat rat
  | EvWriteTo hdu string bool
  | EvSavefig nat string
  | EvDisplay nat

text \<open>The world a run starts in: for each URL the cube it serves, if any (its number of
  channels), the local files, and the path of matplotlib's font cache file (it lies under
  the user's cache directory; its name depends on the installation).\<close>

record world =
  remote :: "string \<rightharpoonup> nat"
  local_files :: "string \<rightharpoonup> file_t"
  font_cache :: string

text \<open>The state of a session: the imported names, the notebook's variables (\<open>None\<close>
  while unbound), pyplot's figures and panels, the figures displayed so far with their panels
  as displayed, the path of the font cache, the files, and the trace of library calls
  made.\<close>

record nb_state =
  names :: "string list"
  rc_params :: "(string \<times> string) list"
  v_cube :: "cube option"
  v_path :: "path option"
  v_skypath :: "path option"
  v_skypath2 :: "path option"
  v_pvdiagram :: "hdu option"
  v_pvdiagram2 :: "hdu option"
  v_pvdiagram3 :: "hdu option"
  v_pvdiagram4 :: "hdu option"
  v_mx :: "image option"
  v_ax :: "nat option"
  v_im :: "mappable option"
  v_cb :: "nat option"
  v_ww :: "wcs_t option"
  v_ax0 :: "coord_helper option"
  v_ax1 :: "coord_helper option"
  v_fig :: "nat option"
  cur_cell :: nat
  figures :: "figure list"
  open_figs :: "nat list"
  cur_ax :: "nat option"
  panels :: "axes list"
  colorbars :: "(mappable \<times> label option) list"
  displayed :: "(nat \<times> axes list) list"
  fontlist :: string
  net :: "string \<rightharpoonup> nat"
  files :: "string \<rightharpoonup> file_t"
  trace :: "event list"

definition init :: "world \<Rightarrow> nb_state" where
  "init w = \<lparr> names = [], rc_params = [],
     v_cube = None, v_path = None, v_skypath = None, v_skypath2 = None,
     v_pvdiagram = None, v_pvdiagram2 = None, v_pvdiagram3 = None, v_pvdiagram4 = None,
     v_mx = None, v_ax = None, v_im = None, v_cb = None, v_ww = None,
     v_ax0 = None, v_ax1 = None, v_fig = None,
     cur_cell = 0, figures = [], open_figs = [], cur_ax = None, panels = [],
     colorbars = [], displayed = [], fontlist = font_cache w,
     net = remote w, files = local_files w, trace = [] \<rparr>"

subsection \<open>Errors, names and sequencing\<close>

type_synonym stmt = "nb_state \<Rightarrow> error + nb_state"

definition bind_e :: "error + 'a \<Rightarrow> ('a \<Rightarrow> error + 'b) \<Rightarrow> error + 'b" where
  "bind_e m f = (case m of Inl e \<Rightarrow> Inl e | Inr x \<Rightarrow> f x)"

text \<open>Reading a variable that no earlier statement has bound raises \<open>NameError\<close>.\<close>

definition using_var ::
  "string \<Rightarrow> (nb_state \<Rightarrow> 'a option) \<Rightarrow> ('a \<Rightarrow> nb_state \<Rightarrow> error + 'b) \<Rightarrow> nb_state
     \<Rightarrow> error + 'b" where
  "using_var x var f s = (case var s of None \<Rightarrow> Inl (NameError x) | Some a \<Rightarrow> f a s)"

text \<open>So does using a module or function name before its \<open>import\<close>.\<close>

definition imported ::
  "string \<Rightarrow> (nb_state \<Rightarrow> error + 'b) \<Rightarrow> nb_state \<Rightarrow> error + 'b" where
  "imported x f s = (if x \<in> set (names s) then f s else Inl (NameError x))"

definition import_names :: "string list \<Rightarrow> stmt" where
  "import_names xs s = Inr (s\<lparr>names := names s @ xs\<rparr>)"

text \<open>\<open>import matplotlib.pyplot as plt\<close> binds \<open>plt\<close> and loads matplotlib's font
  manager, which reads the font cache file and, when there is none, builds the font list
  and writes it there. A font cache that exists is left as it is.\<close>

definition ensure_font_cache ::
  "string \<Rightarrow> (string \<rightharpoonup> file_t) \<Rightarrow> (string \<rightharpoonup> file_t)" where
  "ensure_font_cache p fs = (if fs p = None then fs(p \<mapsto> FontList) else fs)"

definition import_pyplot :: stmt where
  "import_pyplot s =
     Inr (s\<lparr>names := names s @ [''plt''],
            files := ensure_font_cache (fontlist s) (files s)\<rparr>)"

definition log :: "event \<Rightarrow> nb_state \<Rightarrow> nb_state" where
  "log e s = s\<lparr>trace := trace s @ [e]\<rparr>"

text \<open>A bare expression at the end of a cell (\<open>cube\<close>, \<open>pvdiagram\<close>) is evaluated and
  its repr shown; the state does not change.\<close>

definition show_value :: "string \<Rightarrow> (nb_state \<Rightarrow> 'a option) \<Rightarrow> stmt" where
  "show_value x var = using_var x var (\<lambda>a s. Inr s)"

text \<open>\<open>x = call(...)\<close>: the call's result is bound to a variable.\<close>

definition assign ::
  "(nb_state \<Rightarrow> error + ('a \<times> nb_state)) \<Rightarrow> ('a \<Rightarrow> nb_state \<Rightarrow> nb_state) \<Rightarrow> stmt" where
  "assign m bind s = bind_e (m s) (\<lambda>(a, s'). Inr (bind a s'))"

text \<open>A call whose result is dropped.\<close>

definition call :: "(nb_state \<Rightarrow> error + ('a \<times> nb_state)) \<Rightarrow> stmt" where
  "call m s = bind_e (m s) (\<lambda>(a, s'). Inr s')"

subsection \<open>The library calls, by their documented effects\<close>

text \<open>\<open>SpectralCube.read(url)\<close>: fails when nothing can be fetched from the URL.\<close>

definition SpectralCube_read :: "string \<Rightarrow> nb_state \<Rightarrow> error + (cube \<times> nb_state)" where
  "SpectralCube_read url s =
     (case net s url of
        None \<Rightarrow> Inl (IOError url)
      | Some n \<Rightarrow> Inr (Cube url n, log (EvRead url) s))"

text \<open>\<open>cube[k].value\<close>: indexing the spectral axis raises \<open>IndexError\<close> out of range.\<close>

definition cube_getitem :: "cube \<Rightarrow> nat \<Rightarrow> error + image" where
  "cube_getitem c k = (if k < nchan c then Inr (Channel c k) else Inl IndexError)"

text \<open>\<open>Path(points)\<close> and \<open>Path(points, width=w)\<close>.\<close>

definition new_Path ::
  "path_points \<Rightarrow> quantity option \<Rightarrow> nb_state \<Rightarrow> error + (path \<times> nb_state)" where
  "new_Path pts width s = Inr (Path pts width, log (EvPath (Path pts width)) s)"

text \<open>\<open>extract_pv_slice(cube=c, path=p, spacing=sp)\<close> returns the slice of \<open>c\<close> along
  \<open>p\<close>.\<close>

definition extract_pv_slice ::
  "cube \<Rightarrow> path \<Rightarrow> nat option \<Rightarrow> nb_state \<Rightarrow> error + (hdu \<times> nb_state)" where
  "extract_pv_slice c p spacing s =
     Inr (PVSlice c p spacing, log (EvExtract c p spacing) s)"

text \<open>pyplot keeps a current figure and current axes. \<open>plt.figure\<close> opens a new figure;
  \<open>plt.subplot\<close> and \<open>plt.imshow\<close> open one when none is open.\<close>

definition new_figure :: "(nat \<times> nat) option \<Rightarrow> nb_state \<Rightarrow> nat \<times> nb_state" where
  "new_figure sz s =
     (let f = length (figures s)
      in (f, log (EvFigure f)
               (s\<lparr>figures := figures s @ [\<lparr>fig_cell = cur_cell s, fig_size = sz\<rparr>],
                  open_figs := open_figs s @ [f], cur_ax := None\<rparr>)))"

definition plt_figure ::
  "(nat \<times> nat) option \<Rightarrow> nb_state \<Rightarrow> error + (nat \<times> nb_state)" where
  "plt_figure sz s = Inr (new_figure sz s)"

definition gcf :: "nb_state \<Rightarrow> nat \<times> nb_state" where
  "gcf s = (if open_figs s = [] then new_figure None s else (last (open_figs s), s))"

definition new_axes :: "nat \<Rightarrow> nat \<Rightarrow> wcs_t option \<Rightarrow> nb_state \<Rightarrow> nat \<times> nb_state" where
  "new_axes f pos proj s =
     (let a = length (panels s)
      in (a, log (EvSubplot f a pos proj)
               (s\<lparr>panels := panels s @
                     [\<lparr>ax_fig = f, ax_pos = pos, ax_projection = proj, ax_images = [],
                       ax_overlays = [], ax_xlabel = None, ax_ylabel = None\<rparr>],
                  cur_ax := Some a\<rparr>)))"

text \<open>\<open>plt.subplot(pos, projection=proj)\<close>. Within one figure the notebook asks for each
  position once, so a new panel is made each time.\<close>

definition plt_subplot :: "nat \<Rightarrow> wcs_t \<Rightarrow> nb_state \<Rightarrow> error + (nat \<times> nb_state)" where
  "plt_subplot pos proj s = (case gcf s of (f, s1) \<Rightarrow> Inr (new_axes f pos (Some proj) s1))"

definition gca :: "nb_state \<Rightarrow> nat \<times> nb_state" where
  "gca s =
     (case cur_ax s of
        Some a \<Rightarrow> (a, s)
      | None \<Rightarrow> (case gcf s of (f, s1) \<Rightarrow> new_axes f 111 None s1))"

text \<open>A change to the panel behind a handle.\<close>

definition upd_panel :: "nat \<Rightarrow> (axes \<Rightarrow> axes) \<Rightarrow> nb_state \<Rightarrow> nb_state" where
  "upd_panel a f s = s\<lparr>panels := (panels s)[a := f (panels s ! a)]\<rparr>"

text \<open>\<open>ax.imshow(img, **kw)\<close> draws the image on the panel and returns its handle.\<close>

definition ax_imshow ::
  "nat \<Rightarrow> image \<Rightarrow> kwargs \<Rightarrow> nb_state \<Rightarrow> error + (mappable \<times> nb_state)" where
  "ax_imshow a img kw s =
     Inr (AxesImage a (length (ax_images (panels s ! a))),
          log (EvImshow a img kw)
            (upd_panel a (\<lambda>x. x\<lparr>ax_images := ax_images x @ [img]\<rparr>) s))"

text \<open>\<open>plt.imshow(img, **kw)\<close> draws on the current axes, making them first when there are
  none.\<close>

definition plt_imshow ::
  "image \<Rightarrow> kwargs \<Rightarrow> nb_state \<Rightarrow> error + (mappable \<times> nb_state)" where
  "plt_imshow img kw s = (case gca s of (a, s1) \<Rightarrow> ax_imshow a img kw s1)"

text \<open>\<open>path.show_on_axis(ax, spacing=sp, **kw)\<close>.\<close>

definition show_on_axis :: "path \<Rightarrow> nat \<Rightarrow> nat \<Rightarrow> kwargs \<Rightarrow> stmt" where
  "show_on_axis p a sp kw s =
     Inr (log (EvShowOnAxis p a sp kw)
            (upd_panel a (\<lambda>x. x\<lparr>ax_overlays := ax_overlays x @ [(p, sp)]\<rparr>) s))"

definition set_xlabel :: "nat \<Rightarrow> label \<Rightarrow> stmt" where
  "set_xlabel a l s =
     Inr (log (EvSetXLabel a l) (upd_panel a (\<lambda>x. x\<lparr>ax_xlabel := Some l\<rparr>) s))"

definition set_ylabel :: "nat \<Rightarrow> label \<Rightarrow> stmt" where
  "set_ylabel a l s =
     Inr (log (EvSetYLabel a l) (upd_panel a (\<lambda>x. x\<lparr>ax_ylabel := Some l\<rparr>) s))"

definition set_aspect :: "nat \<Rightarrow> rat \<Rightarrow> stmt" where
  "set_aspect a r s = Inr (log (EvSetAspect a r) s)"

text \<open>\<open>ax.coords[k]\<close>: only axes made with a WCS projection have \<open>coords\<close>, one entry
  for each of the two world axes.\<close>

definition ax_coords ::
  "nat \<Rightarrow> nat \<Rightarrow> nb_state \<Rightarrow> error + (coord_helper \<times> nb_state)" where
  "ax_coords a k s =
     (if ax_projection (panels s ! a) = None then Inl (AttributeError ''coords'')
      else if k < 2 then Inr (CoordHelper a k, s)
      else Inl IndexError)"

definition set_format_unit :: "coord_helper \<Rightarrow> unit_t \<Rightarrow> stmt" where
  "set_format_unit h un s = Inr (log (EvFormatUnit h un) s)"

text \<open>\<open>plt.colorbar(mappable=im)\<close> and \<open>cb.set_label(text)\<close>.\<close>

definition plt_colorbar :: "mappable \<Rightarrow> nb_state \<Rightarrow> error + (nat \<times> nb_state)" where
  "plt_colorbar m s =
     Inr (length (colorbars s),
          log (EvColorbar m) (s\<lparr>colorbars := colorbars s @ [(m, None)]\<rparr>))"

definition cb_set_label :: "nat \<Rightarrow> label \<Rightarrow> stmt" where
  "cb_set_label k l s =
     Inr (log (EvCbLabel k l)
            (s\<lparr>colorbars := (colorbars s)[k := (fst (colorbars s ! k), Some l)]\<rparr>))"

text \<open>\<open>plt.rcParams[k] = v\<close>.\<close>

definition set_rc_param :: "string \<Rightarrow> string \<Rightarrow> stmt" where
  "set_rc_param k v s =
     Inr (s\<lparr>rc_params := (k, v) # filter (\<lambda>kv. fst kv \<noteq> k) (rc_params s)\<rparr>)"

text \<open>\<open>hdu.writeto(name, overwrite=b)\<close>: astropy raises \<open>OSError\<close> when the file exists
  and \<open>overwrite\<close> is false; otherwise the file holds the HDU afterwards.\<close>

definition writeto :: "hdu \<Rightarrow> string \<Rightarrow> bool \<Rightarrow> stmt" where
  "writeto h name overwrite s =
     (if files s name \<noteq> None \<and> \<not> overwrite then Inl (OSError name)
      else Inr (log (EvWriteTo h name overwrite)
                  (s\<lparr>files := (files s)(name \<mapsto> FitsFile h)\<rparr>)))"

text \<open>\<open>fig.savefig(name, **kw)\<close> writes the figure in the format named by the file
  extension, replacing a file of that name.\<close>

definition file_ext :: "string \<Rightarrow> string" where
  "file_ext name = rev (takeWhile (\<lambda>c. c \<noteq> CHR ''.'') (rev name))"

definition savefig :: "nat \<Rightarrow> string \<Rightarrow> kwargs \<Rightarrow> stmt" where
  "savefig f name kw s =
     Inr (log (EvSavefig f name)
            (s\<lparr>files := (files s)(name \<mapsto> FigureFile (file_ext name) f)\<rparr>))"

subsection \<open>Running cells\<close>

text \<open>Statements run in order; the first error stops the run and is returned with the
  state reached.\<close>

fun exec :: "stmt list \<Rightarrow> nb_state \<Rightarrow> error option \<times> nb_state" where
  "exec [] s = (None, s)"
| "exec (f # fs) s = (case f s of Inl e \<Rightarrow> (Some e, s) | Inr s' \<Rightarrow> exec fs s')"

text \<open>When a code cell ends, with or without an error, the notebook's inline backend
  displays every open figure as it then is, and closes it: the next cell starts with no
  current figure. A run executes the cells in order and stops after the first cell that
  raised.\<close>

definition panels_of :: "nat \<Rightarrow> nb_state \<Rightarrow> axes list" where
  "panels_of f s = filter (\<lambda>a. ax_fig a = f) (panels s)"

definition end_cell :: "nb_state \<Rightarrow> nb_state" where
  "end_cell s =
     (fold (\<lambda>f. log (EvDisplay f)) (open_figs s) s)
       \<lparr>displayed := displayed s @ map (\<lambda>f. (f, panels_of f s)) (open_figs s),
        open_figs := [], cur_ax := None\<rparr>"

fun run_cells :: "(nat \<times> stmt list) list \<Rightarrow> nb_state \<Rightarrow> error option \<times> nb_state" where
  "run_cells [] s = (None, s)"
| "run_cells ((k, c) # cs) s =
     (case exec c (s\<lparr>cur_cell := k\<rparr>) of
        (Some e, s') \<Rightarrow> (Some e, end_cell s')
      | (None, s') \<Rightarrow> run_cells cs (end_cell s'))"

subsection \<open>The code cells\<close>

text \<open>
  Each code cell is the list of its statements, in order; each statement is given with
  its source text (string quotes written as apostrophes). A statement looks up the names it
  uses in the order Python evaluates them, then makes its call.

  Assignments to the notebook's variables:
\<close>

definition to_cube :: "cube \<Rightarrow> nb_state \<Rightarrow> nb_state" where
  "to_cube c s = s\<lparr>v_cube := Some c\<rparr>"

definition to_path :: "path \<Rightarrow> nb_state \<Rightarrow> nb_state" where
  "to_path p s = s\<lparr>v_path := Some p\<rparr>"

definition to_skypath :: "path \<Rightarrow> nb_state \<Rightarrow> nb_state" where
  "to_skypath p s = s\<lparr>v_skypath := Some p\<rparr>"

definition to_skypath2 :: "path \<Rightarrow> nb_state \<Rightarrow> nb_state" where
  "to_skypath2 p s = s\<lparr>v_skypath2 := Some p\<rparr>"

definition to_pvdiagram :: "hdu \<Rightarrow> nb_state \<Rightarrow> nb_state" where
  "to_pvdiagram h s = s\<lparr>v_pvdiagram := Some h\<rparr>"

definition to_pvdiagram2 :: "hdu \<Rightarrow> nb_state \<Rightarrow> nb_state" where
  "to_pvdiagram2 h s = s\<lparr>v_pvdiagram2 := Some h\<rparr>"

definition to_pvdiagram3 :: "hdu \<Rightarrow> nb_state \<Rightarrow> nb_state" where
  "to_pvdiagram3 h s = s\<lparr>v_pvdiagram3 := Some h\<rparr>"

definition to_pvdiagram4 :: "hdu \<Rightarrow> nb_state \<Rightarrow> nb_state" where
  "to_pvdiagram4 h s = s\<lparr>v_pvdiagram4 := Some h\<rparr>"

definition to_ax :: "nat \<Rightarrow> nb_state \<Rightarrow> nb_state" where
  "to_ax a s = s\<lparr>v_ax := Some a\<rparr>"

definition to_im :: "mappable \<Rightarrow> nb_state \<Rightarrow> nb_state" where
  "to_im m s = s\<lparr>v_im := Some m\<rparr>"

definition to_cb :: "nat \<Rightarrow> nb_state \<Rightarrow> nb_state" where
  "to_cb k s = s\<lparr>v_cb := Some k\<rparr>"

definition to_ax0 :: "coord_helper \<Rightarrow> nb_state \<Rightarrow> nb_state" where
  "to_ax0 h s = s\<lparr>v_ax0 := Some h\<rparr>"

definition to_ax1 :: "coord_helper \<Rightarrow> nb_state \<Rightarrow> nb_state" where
  "to_ax1 h s = s\<lparr>v_ax1 := Some h\<rparr>"

definition to_fig :: "nat \<Rightarrow> nb_state \<Rightarrow> nb_state" where
  "to_fig f s = s\<lparr>v_fig := Some f\<rparr>"

text \<open>The string literals of the notebook.\<close>

definition ra_label :: "cube \<Rightarrow> label" where
  "ra_label c = FRadesys ''Right Ascension ['' c '']''"

definition dec_label :: "cube \<Rightarrow> label" where
  "dec_label c = FRadesys ''Declination ['' c '']''"

definition velocity_label :: label where
  "velocity_label = Str ''Velocity [km/s]''"

definition offset_label :: label where
  "offset_label = Str ''Offset [arcmin]''"

definition brightness_label :: label where
  "brightness_label = Str ''Brightness Temperature [K]''"

text \<open>\<open>color=c\<close>; \<open>edgecolor=c, linestyle=":", linewidth=0.75\<close>;
  \<open>bbox_inches="tight"\<close>; \<open>origin="lower"\<close>.\<close>

definition line_style :: "string \<Rightarrow> kwargs" where
  "line_style c = [(''color'', c)]"

definition patch_style :: "string \<Rightarrow> kwargs" where
  "patch_style c = [(''edgecolor'', c), (''linestyle'', '':''), (''linewidth'', ''0.75'')]"

definition tight_bbox :: kwargs where
  "tight_bbox = [(''bbox_inches'', ''tight'')]"

definition origin_lower :: kwargs where
  "origin_lower = [(''origin'', ''lower'')]"

definition fits_name :: string where
  "fits_name = ''saved_pvdiagram.fits''"

definition png_name :: string where
  "png_name = ''saved_pvdiagram.png''"

definition pdf_name :: string where
  "pdf_name = ''saved_pvdiagram.pdf''"

text \<open>The arguments of the three \<open>Path\<close> calls (lines 115, 304-306, 433-436):
  \<^verbatim>\<open>[(20, 20), (40, 40), (60, 20)]\<close>,
  \<^verbatim>\<open>SkyCoord([3.4, 3.43, 3.42] * u.h, [30.5, 30.75, 30.5] * u.deg, frame="fk5")\<close>,
  \<^verbatim>\<open>SkyCoord([3.4, 3.429, 3.42] * u.h, [30.5, 30.75, 30.5] * u.deg, frame="fk5")\<close>
  and \<^verbatim>\<open>width=2 * u.arcmin\<close>.\<close>

definition path_pixels :: path_points where
  "path_pixels = PixelCoords [(20, 20), (40, 40), (60, 20)]"

definition skypath_coords :: path_points where
  "skypath_coords =
     SkyCoords (SkyCoord (QArray [3.4, 3.43, 3.42] U_h) (QArray [30.5, 30.75, 30.5] U_deg)
       ''fk5'')"

definition skypath2_coords :: path_points where
  "skypath2_coords =
     SkyCoords (SkyCoord (QArray [3.4, 3.429, 3.42] U_h) (QArray [30.5, 30.75, 30.5] U_deg)
       ''fk5'')"

definition skypath2_width :: quantity where
  "skypath2_width = QScalar 2 U_arcmin"

definition cube_url :: string where
  "cube_url = ''http://www.astropy.org/astropy-data/l1448/l1448_13co.fits''"

text \<open>The six statements that end every cell drawing a PV panel with units (lines 213-219,
  262-268, 361-367, 399-405, 481-488 and 525-531 are the same text).\<close>

definition format_pv_axes :: "stmt list" where
  "format_pv_axes =
    [\<comment> \<open>ax0 = ax.coords[0]\<close>
     using_var ''ax'' v_ax (\<lambda>a. assign (ax_coords a 0) to_ax0),
     \<comment> \<open>ax0.set_format_unit(u.arcmin)\<close>
     using_var ''ax0'' v_ax0 (\<lambda>h. imported ''u'' (set_format_unit h U_arcmin)),
     \<comment> \<open>ax1 = ax.coords[1]\<close>
     using_var ''ax'' v_ax (\<lambda>a. assign (ax_coords a 1) to_ax1),
     \<comment> \<open>ax1.set_format_unit(u.km / u.s)\<close>
     using_var ''ax1'' v_ax1 (\<lambda>h. imported ''u'' (set_format_unit h (UDiv U_km U_s))),
     \<comment> \<open>ax.set_ylabel('Velocity [km/s]')\<close>
     using_var ''ax'' v_ax (\<lambda>a. set_ylabel a velocity_label),
     \<comment> \<open>ax.set_xlabel('Offset [arcmin]')\<close>
     using_var ''ax'' v_ax (\<lambda>a. set_xlabel a offset_label)]"

text \<open>Cell 2 (lines 44-53).\<close>

definition cell_2 :: "stmt list" where
  "cell_2 =
    [\<comment> \<open>import matplotlib.pyplot as plt\<close>
     import_pyplot,
     \<comment> \<open>from astropy import units as u\<close>
     import_names [''u''],
     \<comment> \<open>from astropy import wcs\<close>
     import_names [''wcs''],
     \<comment> \<open>from spectral_cube import SpectralCube\<close>
     import_names [''SpectralCube''],
     \<comment> \<open>from pvextractor import extract_pv_slice, Path\<close>
     import_names [''extract_pv_slice'', ''Path''],
     \<comment> \<open>plt.rcParams['figure.facecolor'] = 'w'\<close>
     imported ''plt'' (set_rc_param ''figure.facecolor'' ''w'')]"

text \<open>Cell 4 (lines 71-72).\<close>

definition cell_4 :: "stmt list" where
  "cell_4 =
    [\<comment> \<open>cube =
        SpectralCube.read('http://www.astropy.org/astropy-data/l1448/l1448_13co.fits')\<close>
     imported ''SpectralCube'' (assign (SpectralCube_read cube_url) to_cube),
     \<comment> \<open>cube\<close>
     show_value ''cube'' v_cube]"

text \<open>Cell 6 (line 91).\<close>

definition cell_6 :: "stmt list" where
  "cell_6 =
    [\<comment> \<open>plt.imshow(cube[25].value, origin='lower')\<close>
     imported ''plt'' (using_var ''cube'' v_cube (\<lambda>c s. bind_e (cube_getitem c 25) (\<lambda>img.
       call (plt_imshow img origin_lower) s)))]"

text \<open>Cell 8 (line 115).\<close>

definition cell_8 :: "stmt list" where
  "cell_8 =
    [\<comment> \<open>path = Path([(20, 20), (40, 40), (60, 20)])\<close>
     imported ''Path'' (assign (new_Path path_pixels None) to_path)]"

text \<open>Cell 10 (lines 133-137).\<close>

definition cell_10 :: "stmt list" where
  "cell_10 =
    [\<comment> \<open>ax = plt.subplot(111, projection=cube.wcs.celestial)\<close>
     imported ''plt'' (using_var ''cube'' v_cube (\<lambda>c.
       assign (plt_subplot 111 (Celestial c)) to_ax)),
     \<comment> \<open>ax.imshow(cube[25].value)\<close>
     using_var ''ax'' v_ax (\<lambda>a. using_var ''cube'' v_cube (\<lambda>c s.
       bind_e (cube_getitem c 25) (\<lambda>img. call (ax_imshow a img []) s))),
     \<comment> \<open>path.show_on_axis(ax, spacing=1, color='r')\<close>
     using_var ''path'' v_path (\<lambda>p. using_var ''ax'' v_ax (\<lambda>a.
       show_on_axis p a 1 (line_style ''r''))),
     \<comment> \<open>ax.set_xlabel(f'Right Ascension [{cube.wcs.wcs.radesys}]')\<close>
     using_var ''ax'' v_ax (\<lambda>a. using_var ''cube'' v_cube (\<lambda>c. set_xlabel a (ra_label c))),
     \<comment> \<open>ax.set_ylabel(f'Declination [{cube.wcs.wcs.radesys}]')\<close>
     using_var ''ax'' v_ax (\<lambda>a. using_var ''cube'' v_cube (\<lambda>c. set_ylabel a (dec_label c)))]"

text \<open>Cell 13 (lines 163-164).\<close>

definition cell_13 :: "stmt list" where
  "cell_13 =
    [\<comment> \<open>pvdiagram = extract_pv_slice(cube=cube, path=path, spacing=1)\<close>
     imported ''extract_pv_slice'' (using_var ''cube'' v_cube (\<lambda>c.
       using_var ''path'' v_path (\<lambda>p. assign (extract_pv_slice c p (Some 1)) to_pvdiagram))),
     \<comment> \<open>pvdiagram\<close>
     show_value ''pvdiagram'' v_pvdiagram]"

text \<open>Cell 15 (lines 182-188).\<close>

definition cell_15 :: "stmt list" where
  "cell_15 =
    [\<comment> \<open>ax = plt.subplot(111, projection=wcs.WCS(pvdiagram.header))\<close>
     imported ''plt'' (imported ''wcs'' (using_var ''pvdiagram'' v_pvdiagram (\<lambda>h.
       assign (plt_subplot 111 (WCSOfHeader h)) to_ax))),
     \<comment> \<open>im = ax.imshow(pvdiagram.data)\<close>
     using_var ''ax'' v_ax (\<lambda>a. using_var ''pvdiagram'' v_pvdiagram (\<lambda>h.
       assign (ax_imshow a (HduData h) []) to_im)),
     \<comment> \<open>cb = plt.colorbar(mappable=im)\<close>
     imported ''plt'' (using_var ''im'' v_im (\<lambda>m. assign (plt_colorbar m) to_cb)),
     \<comment> \<open>cb.set_label('Brightness Temperature [K]')\<close>
     using_var ''cb'' v_cb (\<lambda>k. cb_set_label k brightness_label)]"

text \<open>Cell 17 (lines 206-219).\<close>

definition cell_17 :: "stmt list" where
  "cell_17 =
    [\<comment> \<open>ww = wcs.WCS(pvdiagram.header)\<close>
     imported ''wcs'' (using_var ''pvdiagram'' v_pvdiagram (\<lambda>h s.
       Inr (s\<lparr>v_ww := Some (WCSOfHeader h)\<rparr>))),
     \<comment> \<open>ax = plt.subplot(111, projection=ww)\<close>
     imported ''plt'' (using_var ''ww'' v_ww (\<lambda>p. assign (plt_subplot 111 p) to_ax)),
     \<comment> \<open>im = ax.imshow(pvdiagram.data)\<close>
     using_var ''ax'' v_ax (\<lambda>a. using_var ''pvdiagram'' v_pvdiagram (\<lambda>h.
       assign (ax_imshow a (HduData h) []) to_im)),
     \<comment> \<open>cb = plt.colorbar(mappable=im)\<close>
     imported ''plt'' (using_var ''im'' v_im (\<lambda>m. assign (plt_colorbar m) to_cb)),
     \<comment> \<open>cb.set_label('Brightness Temperature [K]')\<close>
     using_var ''cb'' v_cb (\<lambda>k. cb_set_label k brightness_label)] @ format_pv_axes"

text \<open>Cell 19 (line 240).\<close>

definition cell_19 :: "stmt list" where
  "cell_19 =
    [\<comment> \<open>mx = cube.max(axis=0).value\<close>
     using_var ''cube'' v_cube (\<lambda>c s. Inr (s\<lparr>v_mx := Some (PeakMap c)\<rparr>))]"

text \<open>Cell 20 (lines 250-268).\<close>

definition cell_20 :: "stmt list" where
  "cell_20 =
    [\<comment> \<open>plt.figure(figsize=(12, 6))\<close>
     imported ''plt'' (call (plt_figure (Some (12, 6)))),
     \<comment> \<open>ax = plt.subplot(121, projection=cube.wcs.celestial)\<close>
     imported ''plt'' (using_var ''cube'' v_cube (\<lambda>c.
       assign (plt_subplot 121 (Celestial c)) to_ax)),
     \<comment> \<open>ax.imshow(mx)\<close>
     using_var ''ax'' v_ax (\<lambda>a. using_var ''mx'' v_mx (\<lambda>img. call (ax_imshow a img []))),
     \<comment> \<open>path.show_on_axis(ax, spacing=1, color='r')\<close>
     using_var ''path'' v_path (\<lambda>p. using_var ''ax'' v_ax (\<lambda>a.
       show_on_axis p a 1 (line_style ''r''))),
     \<comment> \<open>ww = wcs.WCS(pvdiagram.header)\<close>
     imported ''wcs'' (using_var ''pvdiagram'' v_pvdiagram (\<lambda>h s.
       Inr (s\<lparr>v_ww := Some (WCSOfHeader h)\<rparr>))),
     \<comment> \<open>ax.set_xlabel(f'Right Ascension [{cube.wcs.wcs.radesys}]')\<close>
     using_var ''ax'' v_ax (\<lambda>a. using_var ''cube'' v_cube (\<lambda>c. set_xlabel a (ra_label c))),
     \<comment> \<open>ax.set_ylabel(f'Declination [{cube.wcs.wcs.radesys}]')\<close>
     using_var ''ax'' v_ax (\<lambda>a. using_var ''cube'' v_cube (\<lambda>c. set_ylabel a (dec_label c))),
     \<comment> \<open>ax = plt.subplot(122, projection=ww)\<close>
     imported ''plt'' (using_var ''ww'' v_ww (\<lambda>p. assign (plt_subplot 122 p) to_ax)),
     \<comment> \<open>im = ax.imshow(pvdiagram.data)\<close>
     using_var ''ax'' v_ax (\<lambda>a. using_var ''pvdiagram'' v_pvdiagram (\<lambda>h.
       assign (ax_imshow a (HduData h) []) to_im))] @ format_pv_axes"

text \<open>Cell 23 (line 294).\<close>

definition cell_23 :: "stmt list" where
  "cell_23 =
    [\<comment> \<open>from astropy.coordinates import SkyCoord\<close>
     import_names [''SkyCoord'']]"

text \<open>Cell 24 (lines 304-306).\<close>

definition cell_24 :: "stmt list" where
  "cell_24 =
    [\<comment> \<open>skypath = Path(SkyCoord([3.4, 3.43, 3.42] * u.h, [30.5, 30.75, 30.5] * u.deg,
        frame='fk5'))\<close>
     imported ''Path'' (imported ''SkyCoord'' (imported ''u'' (assign
       (new_Path skypath_coords None) to_skypath)))]"

text \<open>Cell 26 (lines 324-328).\<close>

definition cell_26 :: "stmt list" where
  "cell_26 =
    [\<comment> \<open>ax = plt.subplot(111, projection=cube.wcs.celestial)\<close>
     imported ''plt'' (using_var ''cube'' v_cube (\<lambda>c.
       assign (plt_subplot 111 (Celestial c)) to_ax)),
     \<comment> \<open>ax.imshow(cube[25].value)\<close>
     using_var ''ax'' v_ax (\<lambda>a. using_var ''cube'' v_cube (\<lambda>c s.
       bind_e (cube_getitem c 25) (\<lambda>img. call (ax_imshow a img []) s))),
     \<comment> \<open>skypath.show_on_axis(ax, spacing=1, color='r')\<close>
     using_var ''skypath'' v_skypath (\<lambda>p. using_var ''ax'' v_ax (\<lambda>a.
       show_on_axis p a 1 (line_style ''r''))),
     \<comment> \<open>ax.set_xlabel(f'Right Ascension [{cube.wcs.wcs.radesys}]')\<close>
     using_var ''ax'' v_ax (\<lambda>a. using_var ''cube'' v_cube (\<lambda>c. set_xlabel a (ra_label c))),
     \<comment> \<open>ax.set_ylabel(f'Declination [{cube.wcs.wcs.radesys}]')\<close>
     using_var ''ax'' v_ax (\<lambda>a. using_var ''cube'' v_cube (\<lambda>c. set_ylabel a (dec_label c)))]"

text \<open>Cell 27 (lines 338-339).\<close>

definition cell_27 :: "stmt list" where
  "cell_27 =
    [\<comment> \<open>pvdiagram2 = extract_pv_slice(cube=cube, path=skypath)\<close>
     imported ''extract_pv_slice'' (using_var ''cube'' v_cube (\<lambda>c.
       using_var ''skypath'' v_skypath (\<lambda>p.
       assign (extract_pv_slice c p None) to_pvdiagram2))),
     \<comment> \<open>pvdiagram2\<close>
     show_value ''pvdiagram2'' v_pvdiagram2]"

text \<open>Cell 28 (lines 349-367).\<close>

definition cell_28 :: "stmt list" where
  "cell_28 =
    [\<comment> \<open>plt.figure(figsize=(12, 6))\<close>
     imported ''plt'' (call (plt_figure (Some (12, 6)))),
     \<comment> \<open>ax = plt.subplot(121, projection=cube.wcs.celestial)\<close>
     imported ''plt'' (using_var ''cube'' v_cube (\<lambda>c.
       assign (plt_subplot 121 (Celestial c)) to_ax)),
     \<comment> \<open>ax.imshow(mx)\<close>
     using_var ''ax'' v_ax (\<lambda>a. using_var ''mx'' v_mx (\<lambda>img. call (ax_imshow a img []))),
     \<comment> \<open>skypath.show_on_axis(ax, spacing=1, color='r')\<close>
     using_var ''skypath'' v_skypath (\<lambda>p. using_var ''ax'' v_ax (\<lambda>a.
       show_on_axis p a 1 (line_style ''r''))),
     \<comment> \<open>ww = wcs.WCS(pvdiagram2.header)\<close>
     imported ''wcs'' (using_var ''pvdiagram2'' v_pvdiagram2 (\<lambda>h s.
       Inr (s\<lparr>v_ww := Some (WCSOfHeader h)\<rparr>))),
     \<comment> \<open>ax.set_xlabel(f'Right Ascension [{cube.wcs.wcs.radesys}]')\<close>
     using_var ''ax'' v_ax (\<lambda>a. using_var ''cube'' v_cube (\<lambda>c. set_xlabel a (ra_label c))),
     \<comment> \<open>ax.set_ylabel(f'Declination [{cube.wcs.wcs.radesys}]')\<close>
     using_var ''ax'' v_ax (\<lambda>a. using_var ''cube'' v_cube (\<lambda>c. set_ylabel a (dec_label c))),
     \<comment> \<open>ax = plt.subplot(122, projection=ww)\<close>
     imported ''plt'' (using_var ''ww'' v_ww (\<lambda>p. assign (plt_subplot 122 p) to_ax)),
     \<comment> \<open>im = ax.imshow(pvdiagram2.data)\<close>
     using_var ''ax'' v_ax (\<lambda>a. using_var ''pvdiagram2'' v_pvdiagram2 (\<lambda>h.
       assign (ax_imshow a (HduData h) []) to_im))] @ format_pv_axes"

text \<open>Cell 30 (lines 385-405).\<close>

definition cell_30 :: "stmt list" where
  "cell_30 =
    [\<comment> \<open>plt.figure(figsize=(12, 6))\<close>
     imported ''plt'' (call (plt_figure (Some (12, 6)))),
     \<comment> \<open>ax = plt.subplot(121, projection=cube.wcs.celestial)\<close>
     imported ''plt'' (using_var ''cube'' v_cube (\<lambda>c.
       assign (plt_subplot 121 (Celestial c)) to_ax)),
     \<comment> \<open>ax.imshow(mx)\<close>
     using_var ''ax'' v_ax (\<lambda>a. using_var ''mx'' v_mx (\<lambda>img. call (ax_imshow a img []))),
     \<comment> \<open>skypath.show_on_axis(ax, spacing=1, color='r')\<close>
     using_var ''skypath'' v_skypath (\<lambda>p. using_var ''ax'' v_ax (\<lambda>a.
       show_on_axis p a 1 (line_style ''r''))),
     \<comment> \<open>ww = wcs.WCS(pvdiagram2.header)\<close>
     imported ''wcs'' (using_var ''pvdiagram2'' v_pvdiagram2 (\<lambda>h s.
       Inr (s\<lparr>v_ww := Some (WCSOfHeader h)\<rparr>))),
     \<comment> \<open>ax.set_xlabel(f'Right Ascension [{cube.wcs.wcs.radesys}]')\<close>
     using_var ''ax'' v_ax (\<lambda>a. using_var ''cube'' v_cube (\<lambda>c. set_xlabel a (ra_label c))),
     \<comment> \<open>ax.set_ylabel(f'Declination [{cube.wcs.wcs.radesys}]')\<close>
     using_var ''ax'' v_ax (\<lambda>a. using_var ''cube'' v_cube (\<lambda>c. set_ylabel a (dec_label c))),
     \<comment> \<open>ax = plt.subplot(122, projection=ww)\<close>
     imported ''plt'' (using_var ''ww'' v_ww (\<lambda>p. assign (plt_subplot 122 p) to_ax)),
     \<comment> \<open>im = ax.imshow(pvdiagram2.data)\<close>
     using_var ''ax'' v_ax (\<lambda>a. using_var ''pvdiagram2'' v_pvdiagram2 (\<lambda>h.
       assign (ax_imshow a (HduData h) []) to_im)),
     \<comment> \<open>ax.set_aspect(2)\<close>
     using_var ''ax'' v_ax (\<lambda>a. set_aspect a 2)] @ format_pv_axes"

text \<open>Cell 33 (lines 433-436).\<close>

definition cell_33 :: "stmt list" where
  "cell_33 =
    [\<comment> \<open>skypath2 = Path(SkyCoord([3.4, 3.429, 3.42] * u.h, [30.5, 30.75, 30.5] * u.deg,
        frame='fk5'), width=2 * u.arcmin)\<close>
     imported ''Path'' (imported ''SkyCoord'' (imported ''u'' (assign
       (new_Path skypath2_coords (Some skypath2_width)) to_skypath2)))]"

text \<open>Cell 34 (line 446).\<close>

definition cell_34 :: "stmt list" where
  "cell_34 =
    [\<comment> \<open>pvdiagram3 = extract_pv_slice(cube=cube, path=skypath2)\<close>
     imported ''extract_pv_slice'' (using_var ''cube'' v_cube (\<lambda>c.
       using_var ''skypath2'' v_skypath2 (\<lambda>p.
       assign (extract_pv_slice c p None) to_pvdiagram3)))]"

text \<open>Cell 36 (lines 464-488).\<close>

definition cell_36 :: "stmt list" where
  "cell_36 =
    [\<comment> \<open>plt.figure(figsize=(12, 6))\<close>
     imported ''plt'' (call (plt_figure (Some (12, 6)))),
     \<comment> \<open>ax = plt.subplot(121, projection=cube.wcs.celestial)\<close>
     imported ''plt'' (using_var ''cube'' v_cube (\<lambda>c.
       assign (plt_subplot 121 (Celestial c)) to_ax)),
     \<comment> \<open>ax.imshow(mx)\<close>
     using_var ''ax'' v_ax (\<lambda>a. using_var ''mx'' v_mx (\<lambda>img. call (ax_imshow a img []))),
     \<comment> \<open>skypath2.show_on_axis(ax, spacing=1, edgecolor='r', linestyle=':', linewidth=0.75)\<close>
     using_var ''skypath2'' v_skypath2 (\<lambda>p. using_var ''ax'' v_ax (\<lambda>a.
       show_on_axis p a 1 (patch_style ''r''))),
     \<comment> \<open>ww = wcs.WCS(pvdiagram3.header)\<close>
     imported ''wcs'' (using_var ''pvdiagram3'' v_pvdiagram3 (\<lambda>h s.
       Inr (s\<lparr>v_ww := Some (WCSOfHeader h)\<rparr>))),
     \<comment> \<open>ax.set_xlabel(f'Right Ascension [{cube.wcs.wcs.radesys}]')\<close>
     using_var ''ax'' v_ax (\<lambda>a. using_var ''cube'' v_cube (\<lambda>c. set_xlabel a (ra_label c))),
     \<comment> \<open>ax.set_ylabel(f'Declination [{cube.wcs.wcs.radesys}]')\<close>
     using_var ''ax'' v_ax (\<lambda>a. using_var ''cube'' v_cube (\<lambda>c. set_ylabel a (dec_label c))),
     \<comment> \<open>ax = plt.subplot(122, projection=ww)\<close>
     imported ''plt'' (using_var ''ww'' v_ww (\<lambda>p. assign (plt_subplot 122 p) to_ax)),
     \<comment> \<open>im = ax.imshow(pvdiagram3.data)\<close>
     using_var ''ax'' v_ax (\<lambda>a. using_var ''pvdiagram3'' v_pvdiagram3 (\<lambda>h.
       assign (ax_imshow a (HduData h) []) to_im)),
     \<comment> \<open>ax.set_aspect(2.5)\<close>
     using_var ''ax'' v_ax (\<lambda>a. set_aspect a 2.5),
     \<comment> \<open>cb = plt.colorbar(mappable=im)\<close>
     imported ''plt'' (using_var ''im'' v_im (\<lambda>m. assign (plt_colorbar m) to_cb)),
     \<comment> \<open>cb.set_label('Brightness Temperature [K]')\<close>
     using_var ''cb'' v_cb (\<lambda>k. cb_set_label k brightness_label)] @ format_pv_axes"

text \<open>Cell 38 (lines 508-531).\<close>

definition cell_38 :: "stmt list" where
  "cell_38 =
    [\<comment> \<open>pvdiagram4 = extract_pv_slice(cube=cube, path=skypath2, spacing=5)\<close>
     imported ''extract_pv_slice'' (using_var ''cube'' v_cube (\<lambda>c.
       using_var ''skypath2'' v_skypath2 (\<lambda>p.
       assign (extract_pv_slice c p (Some 5)) to_pvdiagram4))),
     \<comment> \<open>fig = plt.figure(figsize=(12, 6))\<close>
     imported ''plt'' (assign (plt_figure (Some (12, 6))) to_fig),
     \<comment> \<open>ax = plt.subplot(121, projection=cube.wcs.celestial)\<close>
     imported ''plt'' (using_var ''cube'' v_cube (\<lambda>c.
       assign (plt_subplot 121 (Celestial c)) to_ax)),
     \<comment> \<open>ax.imshow(mx)\<close>
     using_var ''ax'' v_ax (\<lambda>a. using_var ''mx'' v_mx (\<lambda>img. call (ax_imshow a img []))),
     \<comment> \<open>skypath2.show_on_axis(ax, spacing=5, edgecolor='w', linestyle=':', linewidth=0.75)\<close>
     using_var ''skypath2'' v_skypath2 (\<lambda>p. using_var ''ax'' v_ax (\<lambda>a.
       show_on_axis p a 5 (patch_style ''w''))),
     \<comment> \<open>ww = wcs.WCS(pvdiagram4.header)\<close>
     imported ''wcs'' (using_var ''pvdiagram4'' v_pvdiagram4 (\<lambda>h s.
       Inr (s\<lparr>v_ww := Some (WCSOfHeader h)\<rparr>))),
     \<comment> \<open>ax.set_xlabel(f'Right Ascension [{cube.wcs.wcs.radesys}]')\<close>
     using_var ''ax'' v_ax (\<lambda>a. using_var ''cube'' v_cube (\<lambda>c. set_xlabel a (ra_label c))),
     \<comment> \<open>ax.set_ylabel(f'Declination [{cube.wcs.wcs.radesys}]')\<close>
     using_var ''ax'' v_ax (\<lambda>a. using_var ''cube'' v_cube (\<lambda>c. set_ylabel a (dec_label c))),
     \<comment> \<open>ax = plt.subplot(122, projection=ww)\<close>
     imported ''plt'' (using_var ''ww'' v_ww (\<lambda>p. assign (plt_subplot 122 p) to_ax)),
     \<comment> \<open>im = ax.imshow(pvdiagram4.data)\<close>
     using_var ''ax'' v_ax (\<lambda>a. using_var ''pvdiagram4'' v_pvdiagram4 (\<lambda>h.
       assign (ax_imshow a (HduData h) []) to_im)),
     \<comment> \<open>cb = plt.colorbar(mappable=im)\<close>
     imported ''plt'' (using_var ''im'' v_im (\<lambda>m. assign (plt_colorbar m) to_cb)),
     \<comment> \<open>cb.set_label('Brightness Temperature [K]')\<close>
     using_var ''cb'' v_cb (\<lambda>k. cb_set_label k brightness_label),
     \<comment> \<open>ax.set_aspect(0.5)\<close>
     using_var ''ax'' v_ax (\<lambda>a. set_aspect a 0.5)] @ format_pv_axes"

text \<open>Cell 40 (line 551).\<close>

definition cell_40 :: "stmt list" where
  "cell_40 =
    [\<comment> \<open>pvdiagram.writeto('saved_pvdiagram.fits', overwrite=True)\<close>
     using_var ''pvdiagram'' v_pvdiagram (\<lambda>h. writeto h fits_name True)]"

text \<open>Cell 42 (lines 569-570).\<close>

definition cell_42 :: "stmt list" where
  "cell_42 =
    [\<comment> \<open>fig.savefig('saved_pvdiagram.png', bbox_inches='tight')\<close>
     using_var ''fig'' v_fig (\<lambda>f. savefig f png_name tight_bbox),
     \<comment> \<open>fig.savefig('saved_pvdiagram.pdf', bbox_inches='tight')\<close>
     using_var ''fig'' v_fig (\<lambda>f. savefig f pdf_name tight_bbox)]"

text \<open>The code cells in notebook order, each with its cell id; a run executes them
  top to bottom from the empty session.\<close>

definition notebook :: "(nat \<times> stmt list) list" where
  "notebook =
    [(2, cell_2), (4, cell_4), (6, cell_6), (8, cell_8),
     (10, cell_10), (13, cell_13), (15, cell_15), (17, cell_17),
     (19, cell_19), (20, cell_20), (23, cell_23), (24, cell_24),
     (26, cell_26), (27, cell_27), (28, cell_28), (30, cell_30),
     (33, cell_33), (34, cell_34), (36, cell_36), (38, cell_38),
     (40, cell_40), (42, cell_42)]"

definition run :: "world \<Rightarrow> error option \<times> nb_state" where
  "run w = run_cells notebook (init w)"

section \<open>Properties of runs\<close>

text \<open>Two worlds to run the notebook in: the URL serves a cube of 53 channels and there
  are no local files, not even a font cache; the same, with a file already under the FITS
  output's name, an unrelated file beside it, and a font cache from an earlier session.\<close>

definition example_world :: world where
  "example_world =
     \<lparr>remote = [cube_url \<mapsto> 53], local_files = Map.empty,
      font_cache = ''.cache/matplotlib/fontlist.json''\<rparr>"

definition busy_world :: world where
  "busy_world =
     \<lparr>remote = [cube_url \<mapsto> 53],
      local_files =
        [fits_name \<mapsto> OtherFile ''stale'', ''notes.txt'' \<mapsto> OtherFile ''keep'',
         ''.cache/matplotlib/fontlist.json'' \<mapsto> OtherFile ''fonts''],
      font_cache = ''.cache/matplotlib/fontlist.json''\<rparr>"

text \<open>The values of \<open>pvdiagram\<close>, \<open>pvdiagram2\<close>, \<open>pvdiagram3\<close> and \<open>pvdiagram4\<close>
  that are bound, and the call that makes a given HDU.\<close>

definition pv_diagrams :: "nb_state \<Rightarrow> hdu list" where
  "pv_diagrams s =
     List.map_filter (\<lambda>v. v) [v_pvdiagram s, v_pvdiagram2 s, v_pvdiagram3 s, v_pvdiagram4 s]"

fun extract_of :: "hdu \<Rightarrow> event" where
  "extract_of (PVSlice c p sp) = EvExtract c p sp"

fun cube_of :: "hdu \<Rightarrow> cube" where
  "cube_of (PVSlice c p sp) = c"

fun is_read :: "event \<Rightarrow> bool" where
  "is_read (EvRead u) = True"
| "is_read e = False"

fun is_extract :: "event \<Rightarrow> bool" where
  "is_extract (EvExtract c p sp) = True"
| "is_extract e = False"

text \<open>The chain read, build path, extract, render or write: what must already have
  happened (\<open>seen\<close>, the calls made so far) when a call is made.\<close>

fun predecessor_done :: "event list \<Rightarrow> event \<Rightarrow> bool" where
  "predecessor_done seen (EvPath p) = list_ex is_read seen"
| "predecessor_done seen (EvExtract c p sp) = (EvPath p \<in> set seen)"
| "predecessor_done seen (EvImshow a (HduData (PVSlice c p sp)) kw) =
     (EvExtract c p sp \<in> set seen)"
| "predecessor_done seen (EvWriteTo (PVSlice c p sp) name ov) =
     (EvExtract c p sp \<in> set seen)"
| "predecessor_done seen e = True"

text \<open>\<open>P\<close> holds of every element of a list together with the elements before it.\<close>

fun all_prefixed :: "('a list \<Rightarrow> 'a \<Rightarrow> bool) \<Rightarrow> 'a list \<Rightarrow> 'a list \<Rightarrow> bool" where
  "all_prefixed P seen [] = True"
| "all_prefixed P seen (e # es) = (P seen e \<and> all_prefixed P (seen @ [e]) es)"

text \<open>Both axis labels of a panel are set; every displayed panel that shows an image has
  them.\<close>

definition labelled :: "axes \<Rightarrow> bool" where
  "labelled a = (ax_xlabel a \<noteq> None \<and> ax_ylabel a \<noteq> None)"

definition all_labelled :: "nb_state \<Rightarrow> bool" where
  "all_labelled s =
     list_all (\<lambda>fp. list_all (\<lambda>a. ax_images a = [] \<or> labelled a) (snd fp)) (displayed s)"

text \<open>The labels the notebook gives a panel, by what the panel shows: offset and velocity
  for a PV diagram, right ascension and declination for an image of the cube.\<close>

fun expected_xlabel :: "image \<Rightarrow> label" where
  "expected_xlabel (HduData h) = offset_label"
| "expected_xlabel (Channel c k) = ra_label c"
| "expected_xlabel (PeakMap c) = ra_label c"

fun expected_ylabel :: "image \<Rightarrow> label" where
  "expected_ylabel (HduData h) = velocity_label"
| "expected_ylabel (Channel c k) = dec_label c"
| "expected_ylabel (PeakMap c) = dec_label c"

text \<open>The call that made panel \<open>a\<close> with projection \<open>p\<close>; and, for a call that draws
  a PV diagram's data, that its panel was made with the WCS of that diagram's header.\<close>

fun made_with :: "nat \<Rightarrow> wcs_t \<Rightarrow> event \<Rightarrow> bool" where
  "made_with a p (EvSubplot f b pos proj) = (b = a \<and> proj = Some p)"
| "made_with a p e = False"

fun own_projection :: "axes list \<Rightarrow> event list \<Rightarrow> event \<Rightarrow> bool" where
  "own_projection ps seen (EvImshow a (HduData h) kw) =
     (list_ex (made_with a (WCSOfHeader h)) seen
      \<and> ax_projection (ps ! a) = Some (WCSOfHeader h))"
| "own_projection ps seen e = True"

section \<open>What a run does\<close>

lemmas nb_cells =
  cell_2_def cell_4_def cell_6_def cell_8_def cell_10_def cell_13_def cell_15_def cell_17_def
  cell_19_def cell_20_def cell_23_def cell_24_def cell_26_def cell_27_def cell_28_def
  cell_30_def cell_33_def cell_34_def cell_36_def cell_38_def cell_40_def cell_42_def
  format_pv_axes_def notebook_def

lemmas nb_calls =
  bind_e_def using_var_def imported_def import_names_def import_pyplot_def log_def
  show_value_def assign_def
  call_def SpectralCube_read_def cube_getitem_def new_Path_def extract_pv_slice_def
  new_figure_def plt_figure_def gcf_def new_axes_def plt_subplot_def gca_def upd_panel_def
  ax_imshow_def plt_imshow_def show_on_axis_def set_xlabel_def set_ylabel_def set_aspect_def
  ax_coords_def set_format_unit_def plt_colorbar_def cb_set_label_def set_rc_param_def
  writeto_def savefig_def panels_of_def end_cell_def
  to_cube_def to_path_def to_skypath_def to_skypath2_def to_pvdiagram_def to_pvdiagram2_def
  to_pvdiagram3_def to_pvdiagram4_def to_ax_def to_im_def to_cb_def to_ax0_def to_ax1_def
  to_fig_def

text \<open>
  How far a run gets depends on the world only through what the cube's URL serves. There
  are three cases, and in each the whole run is computed here by unfolding the cells.

  Nothing can be fetched: \<open>SpectralCube.read\<close> raises in cell 4.
\<close>

lemma run_no_cube:
  assumes "remote w cube_url = None"
  shows "run w =
    (Some (IOError cube_url),
     \<lparr>names = [''plt'', ''u'', ''wcs'', ''SpectralCube'', ''extract_pv_slice'', ''Path''],
       rc_params = [(''figure.facecolor'', ''w'')], v_cube = None, v_path = None,
       v_skypath = None, v_skypath2 = None, v_pvdiagram = None, v_pvdiagram2 = None,
       v_pvdiagram3 = None, v_pvdiagram4 = None, v_mx = None, v_ax = None, v_im = None,
       v_cb = None, v_ww = None, v_ax0 = None, v_ax1 = None, v_fig = None, cur_cell = 4,
       figures = [], open_figs = [], cur_ax = None, panels = [], colorbars = [],
       displayed = [], fontlist = font_cache w, net = remote w,
       files = ensure_font_cache (font_cache w) (local_files w), trace = []\<rparr>)"
  using assms by (simp add: run_def init_def nb_cells nb_calls Let_def)

text \<open>The cube has no channel 25: \<open>cube[25]\<close> raises in cell 6, before anything is
  drawn.\<close>

lemma run_short_cube:
  assumes "remote w cube_url = Some n" and "\<not> 25 < n"
  shows "run w =
    (Some IndexError,
     \<lparr>names = [''plt'', ''u'', ''wcs'', ''SpectralCube'', ''extract_pv_slice'', ''Path''],
       rc_params = [(''figure.facecolor'', ''w'')], v_cube = Some (Cube cube_url n),
       v_path = None, v_skypath = None, v_skypath2 = None, v_pvdiagram = None,
       v_pvdiagram2 = None, v_pvdiagram3 = None, v_pvdiagram4 = None, v_mx = None,
       v_ax = None, v_im = None, v_cb = None, v_ww = None, v_ax0 = None, v_ax1 = None,
       v_fig = None, cur_cell = 6, figures = [], open_figs = [], cur_ax = None, panels = [],
       colorbars = [], displayed = [], fontlist = font_cache w, net = remote w,
       files = ensure_font_cache (font_cache w) (local_files w),
       trace = [EvRead cube_url]\<rparr>)"
  using assms by (simp add: run_def init_def nb_cells nb_calls Let_def)

text \<open>Otherwise every cell runs. The final state, with the panels \<open>a0\<close> to \<open>a14\<close> in
  the order they were made and the whole trace of library calls:\<close>

lemma run_complete:
  assumes "remote w cube_url = Some n" and "25 < n"
  shows "run w =
    (let c = Cube cube_url n;
         p1 = Path path_pixels None;
         p2 = Path skypath_coords None;
         p3 = Path skypath2_coords (Some skypath2_width);
         d1 = PVSlice c p1 (Some 1);
         d2 = PVSlice c p2 None;
         d3 = PVSlice c p3 None;
         d4 = PVSlice c p3 (Some 5);
         a0 = \<lparr>ax_fig = 0, ax_pos = 111, ax_projection = None, ax_images = [Channel c 25],
             ax_overlays = [], ax_xlabel = None, ax_ylabel = None\<rparr>;
         a1 = \<lparr>ax_fig = 1, ax_pos = 111, ax_projection = Some (Celestial c),
             ax_images = [Channel c 25], ax_overlays = [(p1, 1)], ax_xlabel = Some (ra_label c),
             ax_ylabel = Some (dec_label c)\<rparr>;
         a2 = \<lparr>ax_fig = 2, ax_pos = 111, ax_projection = Some (WCSOfHeader d1),
             ax_images = [HduData d1], ax_overlays = [], ax_xlabel = None, ax_ylabel = None\<rparr>;
         a3 = \<lparr>ax_fig = 3, ax_pos = 111, ax_projection = Some (WCSOfHeader d1),
             ax_images = [HduData d1], ax_overlays = [], ax_xlabel = Some offset_label,
             ax_ylabel = Some velocity_label\<rparr>;
         a4 = \<lparr>ax_fig = 4, ax_pos = 121, ax_projection = Some (Celestial c),
             ax_images = [PeakMap c], ax_overlays = [(p1, 1)], ax_xlabel = Some (ra_label c),
             ax_ylabel = Some (dec_label c)\<rparr>;
         a5 = \<lparr>ax_fig = 4, ax_pos = 122, ax_projection = Some (WCSOfHeader d1),
             ax_images = [HduData d1], ax_overlays = [], ax_xlabel = Some offset_label,
             ax_ylabel = Some velocity_label\<rparr>;
         a6 = \<lparr>ax_fig = 5, ax_pos = 111, ax_projection = Some (Celestial c),
             ax_images = [Channel c 25], ax_overlays = [(p2, 1)], ax_xlabel = Some (ra_label c),
             ax_ylabel = Some (dec_label c)\<rparr>;
         a7 = \<lparr>ax_fig = 6, ax_pos = 121, ax_projection = Some (Celestial c),
             ax_images = [PeakMap c], ax_overlays = [(p2, 1)], ax_xlabel = Some (ra_label c),
             ax_ylabel = Some (dec_label c)\<rparr>;
         a8 = \<lparr>ax_fig = 6, ax_pos = 122, ax_projection = Some (WCSOfHeader d2),
             ax_images = [HduData d2], ax_overlays = [], ax_xlabel = Some offset_label,
             ax_ylabel = Some velocity_label\<rparr>;
         a9 = \<lparr>ax_fig = 7, ax_pos = 121, ax_projection = Some (Celestial c),
             ax_images = [PeakMap c], ax_overlays = [(p2, 1)], ax_xlabel = Some (ra_label c),
             ax_ylabel = Some (dec_label c)\<rparr>;
         a10 = \<lparr>ax_fig = 7, ax_pos = 122, ax_projection = Some (WCSOfHeader d2),
             ax_images = [HduData d2], ax_overlays = [], ax_xlabel = Some offset_label,
             ax_ylabel = Some velocity_label\<rparr>;
         a11 = \<lparr>ax_fig = 8, ax_pos = 121, ax_projection = Some (Celestial c),
             ax_images = [PeakMap c], ax_overlays = [(p3, 1)], ax_xlabel = Some (ra_label c),
             ax_ylabel = Some (dec_label c)\<rparr>;
         a12 = \<lparr>ax_fig = 8, ax_pos = 122, ax_projection = Some (WCSOfHeader d3),
             ax_images = [HduData d3], ax_overlays = [], ax_xlabel = Some offset_label,
             ax_ylabel = Some velocity_label\<rparr>;
         a13 = \<lparr>ax_fig = 9, ax_pos = 121, ax_projection = Some (Celestial c),
             ax_images = [PeakMap c], ax_overlays = [(p3, 5)], ax_xlabel = Some (ra_label c),
             ax_ylabel = Some (dec_label c)\<rparr>;
         a14 = \<lparr>ax_fig = 9, ax_pos = 122, ax_projection = Some (WCSOfHeader d4),
             ax_images = [HduData d4], ax_overlays = [], ax_xlabel = Some offset_label,
             ax_ylabel = Some velocity_label\<rparr>
     in (None,
         \<lparr>names =
             [''plt'', ''u'', ''wcs'', ''SpectralCube'', ''extract_pv_slice'', ''Path'',
              ''SkyCoord''],
           rc_params = [(''figure.facecolor'', ''w'')], v_cube = Some c, v_path = Some p1,
           v_skypath = Some p2, v_skypath2 = Some p3, v_pvdiagram = Some d1,
           v_pvdiagram2 = Some d2, v_pvdiagram3 = Some d3, v_pvdiagram4 = Some d4,
           v_mx = Some (PeakMap c), v_ax = Some 14, v_im = Some (AxesImage 14 0), v_cb = Some 3,
           v_ww = Some (WCSOfHeader d4), v_ax0 = Some (CoordHelper 14 0),
           v_ax1 = Some (CoordHelper 14 1), v_fig = Some 9, cur_cell = 42,
           figures =
             [\<lparr>fig_cell = 6, fig_size = None\<rparr>,
              \<lparr>fig_cell = 10, fig_size = None\<rparr>,
              \<lparr>fig_cell = 15, fig_size = None\<rparr>,
              \<lparr>fig_cell = 17, fig_size = None\<rparr>,
              \<lparr>fig_cell = 20, fig_size = Some (12, 6)\<rparr>,
              \<lparr>fig_cell = 26, fig_size = None\<rparr>,
              \<lparr>fig_cell = 28, fig_size = Some (12, 6)\<rparr>,
              \<lparr>fig_cell = 30, fig_size = Some (12, 6)\<rparr>,
              \<lparr>fig_cell = 36, fig_size = Some (12, 6)\<rparr>,
              \<lparr>fig_cell = 38, fig_size = Some (12, 6)\<rparr>],
           open_figs = [], cur_ax = None,
           panels = [a0, a1, a2, a3, a4, a5, a6, a7, a8, a9, a10, a11, a12, a13, a14],
           colorbars =
             [(AxesImage 2 0, Some brightness_label), (AxesImage 3 0, Some brightness_label),
              (AxesImage 12 0, Some brightness_label), (AxesImage 14 0, Some brightness_label)],
           displayed =
             [(0, [a0]), (1, [a1]), (2, [a2]), (3, [a3]), (4, [a4, a5]), (5, [a6]),
              (6, [a7, a8]), (7, [a9, a10]), (8, [a11, a12]), (9, [a13, a14])],
           fontlist = font_cache w, net = remote w,
           files =
             (ensure_font_cache (font_cache w) (local_files w))
               (fits_name \<mapsto> FitsFile d1,
                png_name \<mapsto> FigureFile (file_ext png_name) 9,
                pdf_name \<mapsto> FigureFile (file_ext pdf_name) 9),
           trace =
             [EvRead cube_url, EvFigure 0, EvSubplot 0 0 111 None,
              EvImshow 0 (Channel c 25) origin_lower, EvDisplay 0, EvPath p1, EvFigure 1,
              EvSubplot 1 1 111 (Some (Celestial c)), EvImshow 1 (Channel c 25) [],
              EvShowOnAxis p1 1 1 (line_style ''r''), EvSetXLabel 1 (ra_label c),
              EvSetYLabel 1 (dec_label c), EvDisplay 1, EvExtract c p1 (Some 1), EvFigure 2,
              EvSubplot 2 2 111 (Some (WCSOfHeader d1)), EvImshow 2 (HduData d1) [],
              EvColorbar (AxesImage 2 0), EvCbLabel 0 brightness_label, EvDisplay 2, EvFigure 3,
              EvSubplot 3 3 111 (Some (WCSOfHeader d1)), EvImshow 3 (HduData d1) [],
              EvColorbar (AxesImage 3 0), EvCbLabel 1 brightness_label,
              EvFormatUnit (CoordHelper 3 0) U_arcmin,
              EvFormatUnit (CoordHelper 3 1) (UDiv U_km U_s), EvSetYLabel 3 velocity_label,
              EvSetXLabel 3 offset_label, EvDisplay 3, EvFigure 4,
              EvSubplot 4 4 121 (Some (Celestial c)), EvImshow 4 (PeakMap c) [],
              EvShowOnAxis p1 4 1 (line_style ''r''), EvSetXLabel 4 (ra_label c),
              EvSetYLabel 4 (dec_label c), EvSubplot 4 5 122 (Some (WCSOfHeader d1)),
              EvImshow 5 (HduData d1) [], EvFormatUnit (CoordHelper 5 0) U_arcmin,
              EvFormatUnit (CoordHelper 5 1) (UDiv U_km U_s), EvSetYLabel 5 velocity_label,
              EvSetXLabel 5 offset_label, EvDisplay 4, EvPath p2, EvFigure 5,
              EvSubplot 5 6 111 (Some (Celestial c)), EvImshow 6 (Channel c 25) [],
              EvShowOnAxis p2 6 1 (line_style ''r''), EvSetXLabel 6 (ra_label c),
              EvSetYLabel 6 (dec_label c), EvDisplay 5, EvExtract c p2 None, EvFigure 6,
              EvSubplot 6 7 121 (Some (Celestial c)), EvImshow 7 (PeakMap c) [],
              EvShowOnAxis p2 7 1 (line_style ''r''), EvSetXLabel 7 (ra_label c),
              EvSetYLabel 7 (dec_label c), EvSubplot 6 8 122 (Some (WCSOfHeader d2)),
              EvImshow 8 (HduData d2) [], EvFormatUnit (CoordHelper 8 0) U_arcmin,
              EvFormatUnit (CoordHelper 8 1) (UDiv U_km U_s), EvSetYLabel 8 velocity_label,
              EvSetXLabel 8 offset_label, EvDisplay 6, EvFigure 7,
              EvSubplot 7 9 121 (Some (Celestial c)), EvImshow 9 (PeakMap c) [],
              EvShowOnAxis p2 9 1 (line_style ''r''), EvSetXLabel 9 (ra_label c),
              EvSetYLabel 9 (dec_label c), EvSubplot 7 10 122 (Some (WCSOfHeader d2)),
              EvImshow 10 (HduData d2) [], EvSetAspect 10 2,
              EvFormatUnit (CoordHelper 10 0) U_arcmin,
              EvFormatUnit (CoordHelper 10 1) (UDiv U_km U_s), EvSetYLabel 10 velocity_label,
              EvSetXLabel 10 offset_label, EvDisplay 7, EvPath p3, EvExtract c p3 None,
              EvFigure 8, EvSubplot 8 11 121 (Some (Celestial c)), EvImshow 11 (PeakMap c) [],
              EvShowOnAxis p3 11 1 (patch_style ''r''), EvSetXLabel 11 (ra_label c),
              EvSetYLabel 11 (dec_label c), EvSubplot 8 12 122 (Some (WCSOfHeader d3)),
              EvImshow 12 (HduData d3) [], EvSetAspect 12 (5 / 2), EvColorbar (AxesImage 12 0),
              EvCbLabel 2 brightness_label, EvFormatUnit (CoordHelper 12 0) U_arcmin,
              EvFormatUnit (CoordHelper 12 1) (UDiv U_km U_s), EvSetYLabel 12 velocity_label,
              EvSetXLabel 12 offset_label, EvDisplay 8, EvExtract c p3 (Some 5), EvFigure 9,
              EvSubplot 9 13 121 (Some (Celestial c)), EvImshow 13 (PeakMap c) [],
              EvShowOnAxis p3 13 5 (patch_style ''w''), EvSetXLabel 13 (ra_label c),
              EvSetYLabel 13 (dec_label c), EvSubplot 9 14 122 (Some (WCSOfHeader d4)),
              EvImshow 14 (HduData d4) [], EvColorbar (AxesImage 14 0),
              EvCbLabel 3 brightness_label, EvSetAspect 14 (1 / 2),
              EvFormatUnit (CoordHelper 14 0) U_arcmin,
              EvFormatUnit (CoordHelper 14 1) (UDiv U_km U_s), EvSetYLabel 14 velocity_label,
              EvSetXLabel 14 offset_label, EvDisplay 9, EvWriteTo d1 fits_name True,
              EvSavefig 9 png_name, EvSavefig 9 pdf_name]\<rparr>))"
  using assms
  by (simp add: run_def init_def nb_cells nb_calls Let_def) (simp add: eval_nat_numeral)

lemma run_cases [case_names no_cube short_cube complete]:
  obtains "remote w cube_url = None"
  | n where "remote w cube_url = Some n" and "\<not> 25 < n"
  | n where "remote w cube_url = Some n" and "25 < n"
  by (cases "remote w cube_url") auto

lemma example_remote: "remote example_world cube_url = Some 53"
  by (simp add: example_world_def)

lemma busy_remote: "remote busy_world cube_url = Some 53"
  by (simp add: busy_world_def)

subsection \<open>Lists and what came before\<close>

lemma all_prefixed_nth:
  "all_prefixed P seen es \<Longrightarrow> i < length es \<Longrightarrow> P (seen @ take i es) (es ! i)"
proof (induction es arbitrary: seen i)
  case Nil
  then show ?case by simp
next
  case (Cons x xs)
  show ?case
  proof (cases i)
    case 0
    with Cons.prems show ?thesis by simp
  next
    case (Suc k)
    with Cons.prems have "all_prefixed P (seen @ [x]) xs" and "k < length xs" by simp_all
    from Cons.IH[OF this] Suc show ?thesis by simp
  qed
qed

lemma in_take_nth: "x \<in> set (take i xs) \<Longrightarrow> \<exists>j<i. j < length xs \<and> xs ! j = x"
  by (auto simp: in_set_conv_nth)

lemma list_ex_take_nth:
  assumes "list_ex P (take i xs)"
  shows "\<exists>j<i. j < length xs \<and> P (xs ! j)"
proof -
  from assms obtain x where "x \<in> set (take i xs)" and "P x"
    by (auto simp: list_ex_iff)
  with in_take_nth[of x i xs] show ?thesis by blast
qed

lemma made_withD: "made_with a p ev \<Longrightarrow> \<exists>f pos. ev = EvSubplot f a pos (Some p)"
  by (cases ev) auto

subsection \<open>Facts about every run\<close>

lemma order_all: "all_prefixed predecessor_done [] (trace (snd (run w)))"
proof (cases w rule: run_cases)
  case no_cube
  then show ?thesis by (simp add: run_no_cube)
next
  case (short_cube n)
  then show ?thesis by (simp add: run_short_cube)
next
  case (complete n)
  then show ?thesis by (simp add: run_complete Let_def)
qed

lemma projection_all:
  "all_prefixed (own_projection (panels (snd (run w)))) [] (trace (snd (run w)))"
proof (cases w rule: run_cases)
  case no_cube
  then show ?thesis by (simp add: run_no_cube)
next
  case (short_cube n)
  then show ?thesis by (simp add: run_short_cube)
next
  case (complete n)
  then show ?thesis by (simp add: run_complete Let_def)
qed

lemma diagrams_all:
  "filter is_extract (trace (snd (run w))) = map extract_of (pv_diagrams (snd (run w)))
   \<and> filter is_read (trace (snd (run w)))
       = (if remote w cube_url = None then [] else [EvRead cube_url])
   \<and> (\<forall>h\<in>set (pv_diagrams (snd (run w))). v_cube (snd (run w)) = Some (cube_of h))
   \<and> (\<forall>c. v_cube (snd (run w)) = Some c
         \<longrightarrow> (\<exists>n. c = Cube cube_url n \<and> remote w cube_url = Some n))
   \<and> (fst (run w) = None \<longrightarrow> length (pv_diagrams (snd (run w))) = 4)"
proof (cases w rule: run_cases)
  case no_cube
  then show ?thesis by (simp add: run_no_cube pv_diagrams_def)
next
  case (short_cube n)
  then show ?thesis by (simp add: run_short_cube pv_diagrams_def)
next
  case (complete n)
  then show ?thesis by (simp add: run_complete pv_diagrams_def Let_def)
qed

subsection \<open>The font cache\<close>

lemma ensure_font_cache_there: "ensure_font_cache p fs p \<noteq> None"
  by (simp add: ensure_font_cache_def)

lemma ensure_font_cache_existing: "fs p \<noteq> None \<Longrightarrow> ensure_font_cache p fs = fs"
  by (auto simp: ensure_font_cache_def)

lemma ensure_font_cache_idem:
  "ensure_font_cache p (ensure_font_cache p fs) = ensure_font_cache p fs"
  by (simp add: ensure_font_cache_existing ensure_font_cache_there)

lemma ensure_font_cache_other: "f \<noteq> p \<Longrightarrow> ensure_font_cache p fs f = fs f"
  by (simp add: ensure_font_cache_def)

text \<open>A second run, started in the world the first one left behind, does the same and
  ends in the same state.\<close>

lemma rerun:
  assumes "run w = (e, s)"
  shows "run \<lparr>remote = net s, local_files = files s, font_cache = fontlist s\<rparr> = (e, s)"
proof (cases w rule: run_cases)
  case no_cube
  with assms show ?thesis by (auto simp: run_no_cube ensure_font_cache_idem)
next
  case (short_cube n)
  with assms show ?thesis by (auto simp: run_short_cube ensure_font_cache_idem)
next
  case (complete n)
  let ?fs = "ensure_font_cache (font_cache w) (local_files w)"
  from run_complete[OF complete] assms have s: "net s = remote w" "fontlist s = font_cache w"
    "files s =
       ?fs(fits_name \<mapsto> FitsFile (PVSlice (Cube cube_url n) (Path path_pixels None) (Some 1)),
           png_name \<mapsto> FigureFile (file_ext png_name) 9,
           pdf_name \<mapsto> FigureFile (file_ext pdf_name) 9)"
    by (auto simp: Let_def)
  have "files s (font_cache w) \<noteq> None"
    using ensure_font_cache_there[of "font_cache w" "local_files w"] by (simp add: s(3))
  then have same: "ensure_font_cache (font_cache w) (files s) = files s"
    by (rule ensure_font_cache_existing)
  have "remote \<lparr>remote = net s, local_files = files s, font_cache = fontlist s\<rparr> cube_url
          = Some n"
    using s complete by simp
  from run_complete[OF this complete(2)] run_complete[OF complete] assms same show ?thesis
    by (simp add: Let_def s fits_name_def png_name_def pdf_name_def)
qed

subsection \<open>The save step\<close>

text \<open>With \<open>overwrite=True\<close>, \<open>writeto\<close> raises nothing, whatever the files are; with
  \<open>overwrite=False\<close> it would raise on an existing file. So cell 40, run in any state in
  which \<open>pvdiagram\<close> is bound, writes the file.\<close>

lemma writeto_overwrite:
  "writeto h name True s =
     Inr (log (EvWriteTo h name True) (s\<lparr>files := (files s)(name \<mapsto> FitsFile h)\<rparr>))"
  by (simp add: writeto_def)

lemma writeto_refuses_existing:
  "files s name = Some old \<Longrightarrow> writeto h name False s = Inl (OSError name)"
  by (simp add: writeto_def)

lemma save_step:
  "v_pvdiagram s = Some h \<Longrightarrow>
     exec cell_40 s =
       (None, log (EvWriteTo h fits_name True)
                (s\<lparr>files := (files s)(fits_name \<mapsto> FitsFile h)\<rparr>))"
  by (simp add: cell_40_def using_var_def writeto_overwrite)

section \<open>The claims\<close>

text \<open>
  C1. Every PV diagram the program produces (\<open>pvdiagram\<close>, \<open>pvdiagram2\<close>,
  \<open>pvdiagram3\<close>, \<open>pvdiagram4\<close>) is the result of an \<open>extract_pv_slice\<close> call on the one
  cube read in the run (the value of \<open>cube\<close>, read from the URL by the only read of the
  run) and on a path built by an earlier \<open>Path\<close> call, itself after the read; the
  \<open>extract_pv_slice\<close> calls of the run are exactly the ones that made these diagrams;
  and a run that ends without an error has made all four.
\<close>

theorem pv_diagrams_from_extract:
  assumes "run w = (e, s)" and "PVSlice c p sp \<in> set (pv_diagrams s)"
  shows "v_cube s = Some c
    \<and> (\<exists>n. c = Cube cube_url n \<and> remote w cube_url = Some n)
    \<and> filter is_read (trace s) = [EvRead cube_url]
    \<and> (\<exists>i j k. k < j \<and> j < i \<and> i < length (trace s) \<and> trace s ! k = EvRead cube_url
          \<and> trace s ! j = EvPath p \<and> trace s ! i = EvExtract c p sp)
    \<and> filter is_extract (trace s) = map extract_of (pv_diagrams s)
    \<and> (e = None \<longrightarrow> length (pv_diagrams s) = 4)"
proof -
  let ?t = "trace s"
  from assms(1) have s: "snd (run w) = s" and e: "fst (run w) = e" by simp_all
  note facts = diagrams_all[of w, unfolded s e]
  from facts assms(2) have cube: "v_cube s = Some c" by fastforce
  with facts have loaded: "\<exists>n. c = Cube cube_url n \<and> remote w cube_url = Some n" by blast
  with facts have reads: "filter is_read ?t = [EvRead cube_url]" by auto
  from facts have ex: "filter is_extract ?t = map extract_of (pv_diagrams s)" by blast
  from facts have four: "e = None \<longrightarrow> length (pv_diagrams s) = 4" by blast
  from assms(2) have "extract_of (PVSlice c p sp) \<in> extract_of ` set (pv_diagrams s)"
    by (rule imageI)
  with ex have "EvExtract c p sp \<in> set (filter is_extract ?t)" by simp
  then have "EvExtract c p sp \<in> set ?t" by simp
  then obtain i where i: "i < length ?t" "?t ! i = EvExtract c p sp"
    by (auto simp: in_set_conv_nth)
  have ord: "all_prefixed predecessor_done [] ?t" using order_all[of w] s by simp
  have "predecessor_done (take i ?t) (?t ! i)"
    using all_prefixed_nth[OF ord i(1)] by simp
  then have "EvPath p \<in> set (take i ?t)" by (simp add: i(2))
  then obtain j where j: "j < i" "j < length ?t" "?t ! j = EvPath p"
    using in_take_nth[of "EvPath p" i ?t] by auto
  have "predecessor_done (take j ?t) (?t ! j)"
    using all_prefixed_nth[OF ord j(2)] by simp
  then have "list_ex is_read (take j ?t)" by (simp add: j(3))
  then obtain k where k: "k < j" "k < length ?t" "is_read (?t ! k)"
    using list_ex_take_nth[of is_read j ?t] by auto
  from k(2,3) have "?t ! k \<in> set (filter is_read ?t)" by simp
  then have rk: "?t ! k = EvRead cube_url" by (simp add: reads)
  have "\<exists>i j k. k < j \<and> j < i \<and> i < length ?t \<and> ?t ! k = EvRead cube_url
          \<and> ?t ! j = EvPath p \<and> ?t ! i = EvExtract c p sp"
    using i j(1,3) k(1) rk by (intro exI[of _ i] exI[of _ j] exI[of _ k]) simp
  then show ?thesis using cube loaded reads ex four by (intro conjI)
qed

theorem pv_diagrams_from_extract_witness:
  "run example_world = (fst (run example_world), snd (run example_world))
   \<and> PVSlice (Cube cube_url 53) (Path skypath2_coords (Some skypath2_width)) (Some 5)
        \<in> set (pv_diagrams (snd (run example_world)))
   \<and> v_cube (snd (run example_world)) = Some (Cube cube_url 53)
   \<and> filter is_read (trace (snd (run example_world))) = [EvRead cube_url]
   \<and> (\<exists>i j k. k < j \<and> j < i \<and> i < length (trace (snd (run example_world)))
         \<and> trace (snd (run example_world)) ! k = EvRead cube_url
         \<and> trace (snd (run example_world)) ! j = EvPath (Path skypath2_coords (Some skypath2_width))
         \<and> trace (snd (run example_world)) ! i
             = EvExtract (Cube cube_url 53) (Path skypath2_coords (Some skypath2_width)) (Some 5))"
proof -
  let ?s = "snd (run example_world)"
  have a: "run example_world = (fst (run example_world), ?s)" by simp
  have b: "PVSlice (Cube cube_url 53) (Path skypath2_coords (Some skypath2_width)) (Some 5)
             \<in> set (pv_diagrams ?s)"
    by (simp add: run_complete[OF example_remote] pv_diagrams_def Let_def)
  from pv_diagrams_from_extract[OF a b] a b show ?thesis by (intro conjI) simp_all
qed

text \<open>
  C2. A path for \<open>extract_pv_slice\<close> is built from a list of \<open>(x, y)\<close> pixel pairs or
  from a \<open>SkyCoord\<close>, the latter with or without a \<open>width\<close>. When the cube can be read
  and has a channel 25, the run ends without an error, having built one path of each kind
  and extracted a PV diagram along each.
\<close>

theorem slices_along_both_kinds:
  assumes "remote w cube_url = Some n" and "25 < n" and "run w = (e, s)"
  shows "e = None
    \<and> v_path s = Some (Path (PixelCoords [(20, 20), (40, 40), (60, 20)]) None)
    \<and> v_skypath s = Some (Path (SkyCoords (SkyCoord (QArray [3.4, 3.43, 3.42] U_h)
          (QArray [30.5, 30.75, 30.5] U_deg) ''fk5'')) None)
    \<and> v_skypath2 s = Some (Path (SkyCoords (SkyCoord (QArray [3.4, 3.429, 3.42] U_h)
          (QArray [30.5, 30.75, 30.5] U_deg) ''fk5'')) (Some (QScalar 2 U_arcmin)))
    \<and> (\<forall>v \<in> {v_path s, v_skypath s, v_skypath2 s}. \<exists>q sp. v = Some q
          \<and> EvPath q \<in> set (trace s) \<and> EvExtract (Cube cube_url n) q sp \<in> set (trace s)
          \<and> PVSlice (Cube cube_url n) q sp \<in> set (pv_diagrams s))"
proof -
  let ?c = "Cube cube_url n"
  let ?p1 = "Path path_pixels None"
  let ?p2 = "Path skypath_coords None"
  let ?p3 = "Path skypath2_coords (Some skypath2_width)"
  from run_complete[OF assms(1,2)] assms(3)
  have e: "e = None"
    and vars: "v_path s = Some ?p1" "v_skypath s = Some ?p2" "v_skypath2 s = Some ?p3"
    and q1: "EvPath ?p1 \<in> set (trace s)" "EvExtract ?c ?p1 (Some 1) \<in> set (trace s)"
      "PVSlice ?c ?p1 (Some 1) \<in> set (pv_diagrams s)"
    and q2: "EvPath ?p2 \<in> set (trace s)" "EvExtract ?c ?p2 None \<in> set (trace s)"
      "PVSlice ?c ?p2 None \<in> set (pv_diagrams s)"
    and q3: "EvPath ?p3 \<in> set (trace s)" "EvExtract ?c ?p3 None \<in> set (trace s)"
      "PVSlice ?c ?p3 None \<in> set (pv_diagrams s)"
    by (auto simp: Let_def pv_diagrams_def)
  from vars q1 q2 q3 have "\<forall>v \<in> {v_path s, v_skypath s, v_skypath2 s}. \<exists>q sp. v = Some q
          \<and> EvPath q \<in> set (trace s) \<and> EvExtract ?c q sp \<in> set (trace s)
          \<and> PVSlice ?c q sp \<in> set (pv_diagrams s)"
    by blast
  with e vars show ?thesis
    by (simp add: path_pixels_def skypath_coords_def skypath2_coords_def skypath2_width_def)
qed

theorem slices_along_both_kinds_witness:
  "remote example_world cube_url = Some 53 \<and> (25::nat) < 53
   \<and> run example_world = (fst (run example_world), snd (run example_world))
   \<and> fst (run example_world) = None
   \<and> v_path (snd (run example_world))
       = Some (Path (PixelCoords [(20, 20), (40, 40), (60, 20)]) None)
   \<and> v_skypath2 (snd (run example_world))
       = Some (Path (SkyCoords (SkyCoord (QArray [3.4, 3.429, 3.42] U_h)
           (QArray [30.5, 30.75, 30.5] U_deg) ''fk5'')) (Some (QScalar 2 U_arcmin)))"
proof -
  have a: "(25::nat) < 53" by simp
  have b: "run example_world = (fst (run example_world), snd (run example_world))" by simp
  from slices_along_both_kinds[OF example_remote a b]
  have "fst (run example_world) = None
    \<and> v_path (snd (run example_world))
        = Some (Path (PixelCoords [(20, 20), (40, 40), (60, 20)]) None)
    \<and> v_skypath2 (snd (run example_world))
        = Some (Path (SkyCoords (SkyCoord (QArray [3.4, 3.429, 3.42] U_h)
            (QArray [30.5, 30.75, 30.5] U_deg) ''fk5'')) (Some (QScalar 2 U_arcmin)))"
    by blast
  with example_remote a b show ?thesis by blast
qed

text \<open>
  C3. In every run, whether it ends or stops at an error, the calls come in the order of
  the chain: a path is built only after the cube has been read, a slice is extracted only
  along a path built before, the data of a slice is drawn only after that slice has been
  extracted, and a slice is written to a file only after it has been extracted.
\<close>

theorem calls_in_order:
  assumes "run w = (e, s)" and "i < length (trace s)"
  shows "predecessor_done (take i (trace s)) (trace s ! i)"
proof -
  from assms(1) have "all_prefixed predecessor_done [] (trace s)"
    using order_all[of w] by simp
  from all_prefixed_nth[OF this assms(2)] show ?thesis by simp
qed

theorem calls_in_order_witness:
  "run example_world = (fst (run example_world), snd (run example_world))
   \<and> 13 < length (trace (snd (run example_world)))
   \<and> trace (snd (run example_world)) ! 13
       = EvExtract (Cube cube_url 53) (Path path_pixels None) (Some 1)
   \<and> predecessor_done (take 13 (trace (snd (run example_world))))
        (trace (snd (run example_world)) ! 13)"
proof -
  let ?s = "snd (run example_world)"
  have a: "run example_world = (fst (run example_world), ?s)" by simp
  have b: "13 < length (trace ?s)"
    and c: "trace ?s ! 13 = EvExtract (Cube cube_url 53) (Path path_pixels None) (Some 1)"
    by (simp_all add: run_complete[OF example_remote] Let_def)
  from calls_in_order[OF a b] a b c show ?thesis by simp
qed

text \<open>
  C4, as stated: every displayed figure has both axis labels set on every panel that
  shows an image. It fails: the figure of cell 6 (\<open>plt.imshow\<close> of channel 25) is
  displayed with neither label set, and so is the figure of cell 15.
\<close>

theorem unlabelled_quick_looks: "\<not> all_labelled (snd (run example_world))"
  by (simp add: run_complete[OF example_remote] Let_def all_labelled_def labelled_def)

text \<open>
  C4, amended. Every panel showing an image in a displayed figure has, when the figure is
  displayed, its x and y labels set to Offset and Velocity (a PV diagram) or to Right
  Ascension and Declination (an image of the cube), except in the figures made by cells 6
  and 15, whose panels have no axis label set.
\<close>

theorem labels_except_quick_looks:
  assumes "run w = (e, s)" and "(f, ps) \<in> set (displayed s)" and "a \<in> set ps"
    and "img \<in> set (ax_images a)"
  shows "if fig_cell (figures s ! f) \<in> {6, 15}
         then ax_xlabel a = None \<and> ax_ylabel a = None
         else ax_xlabel a = Some (expected_xlabel img)
            \<and> ax_ylabel a = Some (expected_ylabel img)"
proof (cases w rule: run_cases)
  case no_cube
  with assms show ?thesis by (auto simp: run_no_cube)
next
  case (short_cube n)
  with assms show ?thesis by (auto simp: run_short_cube)
next
  case (complete n)
  from run_complete[OF complete] assms(1) have
    "list_all (\<lambda>fp. list_all (\<lambda>a. list_all (\<lambda>img.
        if fig_cell (figures s ! fst fp) \<in> {6, 15}
        then ax_xlabel a = None \<and> ax_ylabel a = None
        else ax_xlabel a = Some (expected_xlabel img)
           \<and> ax_ylabel a = Some (expected_ylabel img))
      (ax_images a)) (snd fp)) (displayed s)"
    by (auto simp: Let_def)
  with assms(2-4) show ?thesis
    unfolding list_all_iff by fastforce
qed

theorem labels_except_quick_looks_witness:
  "run example_world = (fst (run example_world), snd (run example_world))
   \<and> (4, [panels (snd (run example_world)) ! 4, panels (snd (run example_world)) ! 5])
        \<in> set (displayed (snd (run example_world)))
   \<and> panels (snd (run example_world)) ! 5
        \<in> set [panels (snd (run example_world)) ! 4, panels (snd (run example_world)) ! 5]
   \<and> HduData (PVSlice (Cube cube_url 53) (Path path_pixels None) (Some 1))
        \<in> set (ax_images (panels (snd (run example_world)) ! 5))
   \<and> fig_cell (figures (snd (run example_world)) ! 4) = 20
   \<and> ax_xlabel (panels (snd (run example_world)) ! 5) = Some offset_label
   \<and> ax_ylabel (panels (snd (run example_world)) ! 5) = Some velocity_label"
proof -
  let ?s = "snd (run example_world)"
  have a: "run example_world = (fst (run example_world), ?s)" by simp
  have b: "(4, [panels ?s ! 4, panels ?s ! 5]) \<in> set (displayed ?s)"
    and c: "panels ?s ! 5 \<in> set [panels ?s ! 4, panels ?s ! 5]"
    and d: "HduData (PVSlice (Cube cube_url 53) (Path path_pixels None) (Some 1))
              \<in> set (ax_images (panels ?s ! 5))"
    and g: "fig_cell (figures ?s ! 4) = 20"
    by (simp_all add: run_complete[OF example_remote] Let_def)
  from labels_except_quick_looks[OF a b c d] a b c d g show ?thesis by simp
qed

text \<open>
  C6. When a run has ended without an error, the file \<open>saved_pvdiagram.fits\<close> holds
  the HDU of \<open>pvdiagram\<close>, written by its \<open>writeto\<close>: the HDU returned by the first
  \<open>extract_pv_slice\<close> call of the run (the cube along the pixel path, spacing 1), as it
  was returned.
\<close>

theorem saved_first_diagram:
  assumes "run w = (None, s)"
  shows "\<exists>n rest. remote w cube_url = Some n
    \<and> filter is_extract (trace s)
        = EvExtract (Cube cube_url n) (Path path_pixels None) (Some 1) # rest
    \<and> v_pvdiagram s = Some (PVSlice (Cube cube_url n) (Path path_pixels None) (Some 1))
    \<and> EvWriteTo (PVSlice (Cube cube_url n) (Path path_pixels None) (Some 1)) fits_name True
        \<in> set (trace s)
    \<and> files s fits_name
        = Some (FitsFile (PVSlice (Cube cube_url n) (Path path_pixels None) (Some 1)))"
proof (cases w rule: run_cases)
  case no_cube
  with assms show ?thesis by (simp add: run_no_cube)
next
  case (short_cube n)
  with assms show ?thesis by (simp add: run_short_cube)
next
  case (complete n)
  from run_complete[OF complete] assms complete(1) show ?thesis
    by (auto simp: Let_def fits_name_def png_name_def pdf_name_def)
qed

theorem saved_first_diagram_witness:
  "run example_world = (None, snd (run example_world))
   \<and> files (snd (run example_world)) fits_name
       = Some (FitsFile (PVSlice (Cube cube_url 53) (Path path_pixels None) (Some 1)))"
proof -
  have a: "run example_world = (None, snd (run example_world))"
    by (simp add: run_complete[OF example_remote] Let_def)
  from saved_first_diagram[OF a] example_remote a show ?thesis by auto
qed

text \<open>
  C7, as stated: the three output files are the only files a run creates or modifies. It
  fails: in a world without a font cache, the import of \<open>matplotlib.pyplot\<close> in cell 2
  creates one, a file that is none of the three outputs.
\<close>

theorem font_cache_written:
  "font_cache example_world \<notin> {fits_name, png_name, pdf_name}
   \<and> local_files example_world (font_cache example_world) = None
   \<and> files (snd (run example_world)) (font_cache example_world) = Some FontList"
  by (simp add: run_complete[OF example_remote] Let_def)
     (simp add: example_world_def fits_name_def png_name_def pdf_name_def
        ensure_font_cache_def)

text \<open>
  C7, amended. In every run, a local file whose name is not one of \<open>saved_pvdiagram.fits\<close>,
  \<open>saved_pvdiagram.png\<close>, \<open>saved_pvdiagram.pdf\<close> and is not matplotlib's font cache is
  after the run what it was before; the font cache is created when there was none and is
  otherwise left as it was; what the URL serves is not changed; \<open>cube\<close>, once bound, is
  the cube that was read; and a second run, started with the files as the first one left
  them, ends in the same state as the first.
\<close>

theorem only_outputs_and_font_cache_written:
  assumes "run w = (e, s)"
  shows "(\<forall>f. f \<notin> {fits_name, png_name, pdf_name, font_cache w}
            \<longrightarrow> files s f = local_files w f)
    \<and> (font_cache w \<notin> {fits_name, png_name, pdf_name}
          \<longrightarrow> files s (font_cache w)
              = (case local_files w (font_cache w) of None \<Rightarrow> Some FontList
                 | Some x \<Rightarrow> Some x))
    \<and> net s = remote w
    \<and> (\<forall>c. v_cube s = Some c
          \<longrightarrow> (\<exists>n. c = Cube cube_url n \<and> remote w cube_url = Some n))
    \<and> run \<lparr>remote = net s, local_files = files s, font_cache = fontlist s\<rparr> = (e, s)"
proof -
  have "(\<forall>f. f \<notin> {fits_name, png_name, pdf_name, font_cache w}
            \<longrightarrow> files s f = local_files w f)
    \<and> (font_cache w \<notin> {fits_name, png_name, pdf_name}
          \<longrightarrow> files s (font_cache w)
              = (case local_files w (font_cache w) of None \<Rightarrow> Some FontList
                 | Some x \<Rightarrow> Some x))
    \<and> net s = remote w
    \<and> (\<forall>c. v_cube s = Some c
          \<longrightarrow> (\<exists>n. c = Cube cube_url n \<and> remote w cube_url = Some n))"
  proof (cases w rule: run_cases)
    case no_cube
    with assms show ?thesis
      by (auto simp: run_no_cube ensure_font_cache_def split: option.splits)
  next
    case (short_cube n)
    with assms show ?thesis
      by (auto simp: run_short_cube ensure_font_cache_def split: option.splits)
  next
    case (complete n)
    from run_complete[OF complete] assms complete(1) show ?thesis
      by (auto simp: Let_def ensure_font_cache_def split: option.splits)
  qed
  with rerun[OF assms] show ?thesis by (intro conjI) blast+
qed

theorem only_outputs_and_font_cache_written_witness:
  "run busy_world = (fst (run busy_world), snd (run busy_world))
   \<and> ''notes.txt'' \<notin> {fits_name, png_name, pdf_name, font_cache busy_world}
   \<and> files (snd (run busy_world)) ''notes.txt'' = Some (OtherFile ''keep'')
   \<and> font_cache busy_world \<notin> {fits_name, png_name, pdf_name}
   \<and> files (snd (run busy_world)) (font_cache busy_world) = Some (OtherFile ''fonts'')
   \<and> net (snd (run busy_world)) = remote busy_world"
proof -
  have a: "run busy_world = (fst (run busy_world), snd (run busy_world))" by simp
  have b: "''notes.txt'' \<notin> {fits_name, png_name, pdf_name, font_cache busy_world}"
    and b': "font_cache busy_world \<notin> {fits_name, png_name, pdf_name}"
    by (simp_all add: fits_name_def png_name_def pdf_name_def busy_world_def)
  have c: "local_files busy_world ''notes.txt'' = Some (OtherFile ''keep'')"
    and c': "local_files busy_world (font_cache busy_world) = Some (OtherFile ''fonts'')"
    by (simp_all add: busy_world_def)
  from only_outputs_and_font_cache_written[OF a] a b b' c c' show ?thesis by simp
qed

text \<open>
  C8. In every displayed figure, the spacing of a path overlay drawn by \<open>show_on_axis\<close>
  equals the spacing of every PV diagram shown in the same figure that was extracted with
  an explicit \<open>spacing\<close>.
\<close>

theorem overlay_spacing_matches:
  assumes "run w = (e, s)" and "(f, ps) \<in> set (displayed s)"
    and "a \<in> set ps" and "(p, sp) \<in> set (ax_overlays a)"
    and "b \<in> set ps" and "HduData (PVSlice c q (Some sp')) \<in> set (ax_images b)"
  shows "sp = sp'"
proof (cases w rule: run_cases)
  case no_cube
  with assms show ?thesis by (auto simp: run_no_cube)
next
  case (short_cube n)
  with assms show ?thesis by (auto simp: run_short_cube)
next
  case (complete n)
  from run_complete[OF complete] assms show ?thesis
    by (auto simp: Let_def)
qed

theorem overlay_spacing_matches_witness:
  "run example_world = (fst (run example_world), snd (run example_world))
   \<and> (9, [panels (snd (run example_world)) ! 13, panels (snd (run example_world)) ! 14])
        \<in> set (displayed (snd (run example_world)))
   \<and> (Path skypath2_coords (Some skypath2_width), 5)
        \<in> set (ax_overlays (panels (snd (run example_world)) ! 13))
   \<and> HduData (PVSlice (Cube cube_url 53) (Path skypath2_coords (Some skypath2_width)) (Some 5))
        \<in> set (ax_images (panels (snd (run example_world)) ! 14))"
proof -
  let ?s = "snd (run example_world)"
  have a: "run example_world = (fst (run example_world), ?s)" by simp
  have b: "(9, [panels ?s ! 13, panels ?s ! 14]) \<in> set (displayed ?s)"
    and c: "panels ?s ! 13 \<in> set [panels ?s ! 13, panels ?s ! 14]"
    and d: "(Path skypath2_coords (Some skypath2_width), 5)
              \<in> set (ax_overlays (panels ?s ! 13))"
    and c': "panels ?s ! 14 \<in> set [panels ?s ! 13, panels ?s ! 14]"
    and d': "HduData (PVSlice (Cube cube_url 53) (Path skypath2_coords (Some skypath2_width))
               (Some 5)) \<in> set (ax_images (panels ?s ! 14))"
    by (simp_all add: run_complete[OF example_remote] Let_def)
  from overlay_spacing_matches[OF a b c d c' d'] a b d d' show ?thesis by simp
qed

text \<open>
  C9. Every \<open>imshow\<close> call that draws the data of a PV diagram draws on a panel made, by
  an earlier \<open>plt.subplot\<close> call, with the projection \<open>wcs.WCS\<close> of that same diagram's
  header; the panel still has that projection at the end of the run.
\<close>

theorem pv_drawn_on_own_wcs:
  assumes "run w = (e, s)" and "i < length (trace s)"
    and "trace s ! i = EvImshow a (HduData h) kw"
  shows "(\<exists>j<i. \<exists>f pos. trace s ! j = EvSubplot f a pos (Some (WCSOfHeader h)))
    \<and> ax_projection (panels s ! a) = Some (WCSOfHeader h)"
proof -
  from assms(1) have "all_prefixed (own_projection (panels s)) [] (trace s)"
    using projection_all[of w] by simp
  from all_prefixed_nth[OF this assms(2)]
  have "own_projection (panels s) (take i (trace s)) (trace s ! i)" by simp
  then have ex: "list_ex (made_with a (WCSOfHeader h)) (take i (trace s))"
    and proj: "ax_projection (panels s ! a) = Some (WCSOfHeader h)"
    by (simp_all add: assms(3))
  from list_ex_take_nth[OF ex]
  obtain j where "j < i" and "made_with a (WCSOfHeader h) (trace s ! j)"
    by blast
  with made_withD have "\<exists>j<i. \<exists>f pos. trace s ! j = EvSubplot f a pos (Some (WCSOfHeader h))"
    by blast
  with proj show ?thesis by (intro conjI)
qed

theorem pv_drawn_on_own_wcs_witness:
  "run example_world = (fst (run example_world), snd (run example_world))
   \<and> 16 < length (trace (snd (run example_world)))
   \<and> trace (snd (run example_world)) ! 16
       = EvImshow 2 (HduData (PVSlice (Cube cube_url 53) (Path path_pixels None) (Some 1))) []
   \<and> ax_projection (panels (snd (run example_world)) ! 2)
       = Some (WCSOfHeader (PVSlice (Cube cube_url 53) (Path path_pixels None) (Some 1)))"
proof -
  let ?s = "snd (run example_world)"
  have a: "run example_world = (fst (run example_world), ?s)" by simp
  have b: "16 < length (trace ?s)"
    and c: "trace ?s ! 16
       = EvImshow 2 (HduData (PVSlice (Cube cube_url 53) (Path path_pixels None) (Some 1))) []"
    by (simp_all add: run_complete[OF example_remote] Let_def)
  from pv_drawn_on_own_wcs[OF a b c] a b c show ?thesis by simp
qed

text \<open>
  C10. When a file named \<open>saved_pvdiagram.fits\<close> exists before the run, the run does not
  stop with the \<open>OSError\<close> that \<open>writeto\<close> raises for an existing file; and when the
  cube can be read and has a channel 25, the run ends without an error and the file holds
  the HDU of \<open>pvdiagram\<close> in place of what it held.
\<close>

theorem save_replaces_existing_file:
  assumes "local_files w fits_name = Some old" and "run w = (e, s)"
  shows "e \<noteq> Some (OSError fits_name)
    \<and> (\<forall>n. remote w cube_url = Some n \<and> 25 < n \<longrightarrow> e = None
          \<and> files s fits_name
              = Some (FitsFile (PVSlice (Cube cube_url n) (Path path_pixels None) (Some 1))))"
proof (cases w rule: run_cases)
  case no_cube
  with assms show ?thesis by (auto simp: run_no_cube)
next
  case (short_cube n)
  with assms show ?thesis by (auto simp: run_short_cube)
next
  case (complete n)
  from run_complete[OF complete] assms complete(1) show ?thesis
    by (auto simp: Let_def fits_name_def png_name_def pdf_name_def)
qed

theorem save_replaces_existing_file_witness:
  "local_files busy_world fits_name = Some (OtherFile ''stale'')
   \<and> run busy_world = (fst (run busy_world), snd (run busy_world))
   \<and> remote busy_world cube_url = Some 53 \<and> (25::nat) < 53
   \<and> fst (run busy_world) = None
   \<and> files (snd (run busy_world)) fits_name
       = Some (FitsFile (PVSlice (Cube cube_url 53) (Path path_pixels None) (Some 1)))"
proof -
  have a: "local_files busy_world fits_name = Some (OtherFile ''stale'')"
    by (simp add: busy_world_def fits_name_def)
  have b: "run busy_world = (fst (run busy_world), snd (run busy_world))" by simp
  have c: "remote busy_world cube_url = Some 53 \<and> (25::nat) < 53"
    by (simp add: busy_remote)
  from save_replaces_existing_file[OF a b] c
  have "fst (run busy_world) = None
    \<and> files (snd (run busy_world)) fits_name
        = Some (FitsFile (PVSlice (Cube cube_url 53) (Path path_pixels None) (Some 1)))"
    by blast
  with a b c show ?thesis by blast
qed

end
